theory Spec2Isabelle
  imports Main
begin

section \<open>The source buffer\<close>

text \<open>
  The scanner of \<^verbatim>\<open>src/compiler/lexer/Lexer.cpp\<close> walks a \<^verbatim>\<open>char\<close> pointer
  over an immutable buffer. The buffer is a \<^typ>\<open>string\<close> (a list of 8-bit characters),
  \<^verbatim>\<open>bufPtr\<close> is offset \<open>0\<close>, \<^verbatim>\<open>endPtr\<close> is offset \<open>length buf\<close> and a pointer is a
  natural-number offset. The byte at \<^verbatim>\<open>endPtr\<close> is the NUL sentinel that the buffer's
  owner (\<^verbatim>\<open>llvm::MemoryBuffer\<close>) guarantees; nothing is known about the bytes after
  it, so a read there has no value.
\<close>

definition peek :: "string \<Rightarrow> nat \<Rightarrow> char option" where
  "peek buf i =
     (if i < length buf then Some (buf ! i)
      else if i = length buf then Some (CHR 0x00)
      else None)"

text \<open>A look-ahead test \<^verbatim>\<open>pred(ptr[k])\<close>; it is false where the byte has no value.\<close>

definition peekIs :: "(char \<Rightarrow> bool) \<Rightarrow> string \<Rightarrow> nat \<Rightarrow> bool" where
  "peekIs pred buf i = (case peek buf i of Some c \<Rightarrow> pred c | None \<Rightarrow> False)"

section \<open>Character classes\<close>

definition isHorizontalWhitespace :: "char \<Rightarrow> bool" where
  "isHorizontalWhitespace c =
     (c = CHR 0x09 \<or> c = CHR 0x0B \<or> c = CHR 0x0C \<or> c = CHR '' '')"

definition isAscii :: "char \<Rightarrow> bool" where
  "isAscii c = ((of_char c :: nat) < 0x80)"

text \<open>
  \<^verbatim>\<open>static_cast<uint32_t>(x)\<close> of a \<^verbatim>\<open>char\<close>: the (signed) character value
  reduced modulo \<open>2 ^ 32\<close>. The digit macros subtract \<^verbatim>\<open>'0'\<close> in unsigned
  arithmetic, so the wrap-around is written out.
\<close>

definition toUInt32 :: "char \<Rightarrow> int" where
  "toUInt32 c =
     (if (of_char c :: int) < 0x80 then of_char c else of_char c - 0x100) mod 2 ^ 32"

definition isDigit :: "char \<Rightarrow> bool" where
  "isDigit x = ((toUInt32 x - 48) mod 2 ^ 32 < 10)"

definition isOctalDigit :: "char \<Rightarrow> bool" where
  "isOctalDigit x = ((toUInt32 x - 48) mod 2 ^ 32 < 8)"

definition isBinaryDigit :: "char \<Rightarrow> bool" where
  "isBinaryDigit x = (x = CHR ''0'' \<or> x = CHR ''1'')"

text \<open>
  Modelled from the spec: the macro \<^verbatim>\<open>isHexDigit\<close> is used by
  \<^verbatim>\<open>lexHexNumericLiteral\<close> but its definition is not among the sources. It is taken
  to accept the valid digits of the radix, which are the case labels of the digit loop
  of the same function: \<open>0-9\<close>, \<open>a-f\<close>, \<open>A-F\<close>.
\<close>

definition isHexDigit :: "char \<Rightarrow> bool" where
  "isHexDigit x = (x \<in> set ''0123456789abcdefABCDEF'')"

section \<open>Tokens\<close>

datatype TokenKind =
    FileEnd
  | LeftCurly | RightCurly | LeftParenthasis | RightParenthasis
  | LeftSquare | RightSquare | Dot | DotDotDot | Semicolon | Comma
  | Less | Greater | LessEquals | GreaterEquals | EqualsEquals
  | ExclaimationEquals | EqualsEqualsEquals | ExclaimationEqualsEquals
  | EqualsGreater | Plus | Minus | AsteriskAsterisk | Asterisk | Slash
  | Percent | PlusPlus | MinusMinus | LessLess | LessSlash
  | GreaterGreater | GreaterGreaterGreater | Ampersand | Bar | Caret
  | Exclaimation | Tilde | AmpersandAmpersand | BarBar | Question
  | QuestionQuestion | QuestionDot | Colon | Equals | PlusEquals
  | MinusEquals | AsteriskEquals | AsteriskAsteriskEquals | SlashEquals
  | PercentEquals | LessLessEquals | GreaterGreaterEquals
  | GreaterGreaterGreaterEquals | AmpersandEquals | BarEquals
  | CaretEquals | BarBarEquals | AmpersandAmpersandEquals
  | QuestionQuestionEquals
  | ZeroLiteral | ZeroBigIntLiteral | DecimalLiteral
  | DecimalBigIntLiteral | FloatLiteral | HexLiteral | HexBigIntLiteral
  | OctalLiteral | OctalBigIntLiteral | BinaryLiteral
  | BinaryBigIntLiteral | StringLiteral

text \<open>
  \<^verbatim>\<open>struct Token\<close>. The \<^verbatim>\<open>llvm::StringRef text\<close> is a borrowed view of the
  buffer: the offset of its first byte and its length. The fields \<^verbatim>\<open>line\<close>,
  \<^verbatim>\<open>col\<close> and \<^verbatim>\<open>text\<close> are named \<open>tokLine\<close>, \<open>tokCol\<close> and \<open>tokText\<close>: the
  scanner has fields \<^verbatim>\<open>line\<close> and \<^verbatim>\<open>col\<close> of its own, and \<open>text\<close> is a keyword.
\<close>

record Token =
  kind :: TokenKind
  tokLine :: int
  tokCol :: int
  tokText :: "nat \<times> nat"
  afterLineTerminator :: bool

text \<open>The two overloads of \<^verbatim>\<open>Token::set\<close>: with four arguments and with five.\<close>

definition Token_set :: "TokenKind \<Rightarrow> int \<Rightarrow> int \<Rightarrow> bool \<Rightarrow> Token \<Rightarrow> Token" where
  "Token_set k l c a tok =
     tok\<lparr>kind := k, tokLine := l, tokCol := c, afterLineTerminator := a\<rparr>"

definition Token_set_text ::
  "TokenKind \<Rightarrow> int \<Rightarrow> int \<Rightarrow> bool \<Rightarrow> nat \<times> nat \<Rightarrow> Token \<Rightarrow> Token" where
  "Token_set_text k l c a t tok =
     tok\<lparr>kind := k, tokLine := l, tokCol := c, afterLineTerminator := a, tokText := t\<rparr>"

text \<open>The bytes a token's \<^verbatim>\<open>text\<close> views.\<close>

definition lexeme :: "string \<Rightarrow> Token \<Rightarrow> string" where
  "lexeme buf tok = take (snd (tokText tok)) (drop (fst (tokText tok)) buf)"

section \<open>Scanner state and diagnostics\<close>

text \<open>
  A diagnostic line written to \<^verbatim>\<open>llvm::errs()\<close>: the line and column printed and
  the message. The messages that quote \<^verbatim>\<open>ptr[0]\<close> carry the byte read there.
\<close>

datatype message =
    UnexpectedNull
  | InvalidUTF8
  | InvalidNumericSeparator "char option"
  | MalformedRadixInt string string "char option"
  | UnexpectedEndOfFileInComment
  | LegacyOctalInStrictMode

type_synonym diagnostic = "int \<times> int \<times> message"

text \<open>
  \<^verbatim>\<open>class Lexer\<close>: the current pointer, the sticky \<^verbatim>\<open>lexerFailed\<close> flag, and the
  \<^verbatim>\<open>line\<close> and \<^verbatim>\<open>col\<close> counters (C \<^verbatim>\<open>int\<close>, taken as unbounded integers: no
  claim depends on their overflow). \<open>errs\<close> is the error stream, in output order. The
  buffer bounds are those of the buffer argument; the file path only decorates the
  diagnostics and is left out.
\<close>

record Lexer =
  ptr :: nat
  lexerFailed :: bool
  line :: int
  col :: int
  errs :: "diagnostic list"

definition diagnoseUnexpectedNull :: "Lexer \<Rightarrow> Lexer" where
  "diagnoseUnexpectedNull st =
     st\<lparr>errs := errs st @ [(line st, col st, UnexpectedNull)],
        lexerFailed := True,
        line := line st + 1,
        col := col st + 1\<rparr>"

definition diagnoseInvalidUTF8 :: "Lexer \<Rightarrow> Lexer" where
  "diagnoseInvalidUTF8 st =
     st\<lparr>errs := errs st @ [(line st, col st, InvalidUTF8)],
        lexerFailed := True,
        ptr := ptr st + 1\<rparr>"

definition diagnoseInvalidNumericSeparator :: "string \<Rightarrow> Lexer \<Rightarrow> Lexer" where
  "diagnoseInvalidNumericSeparator buf st =
     st\<lparr>errs := errs st @
          [(line st, col st + 1, InvalidNumericSeparator (peek buf (ptr st)))],
        col := col st + 1,
        lexerFailed := True\<rparr>"

definition diagnoseMalformedRadixInt :: "string \<Rightarrow> string \<Rightarrow> string \<Rightarrow> Lexer \<Rightarrow> Lexer" where
  "diagnoseMalformedRadixInt buf type prefix st =
     st\<lparr>errs := errs st @
          [(line st, col st, MalformedRadixInt type prefix (peek buf (ptr st)))],
        lexerFailed := True\<rparr>"

text \<open>
  How a scanner function ends: it returns (its return value, the state and the
  caller's token slot as they are then), or it reads a byte past the sentinel, which is
  undefined behaviour in C++.
\<close>

datatype 'r result = Returned 'r Lexer Token | OutOfBounds Lexer

text \<open>The statement pair \<^verbatim>\<open>ptr += n; col += n;\<close>.\<close>

definition advance :: "nat \<Rightarrow> Lexer \<Rightarrow> Lexer" where
  "advance n st = st\<lparr>ptr := ptr st + n, col := col st + int n\<rparr>"

section \<open>UTF-8 decoding\<close>

text \<open>
  The macro \<^verbatim>\<open>decodeUTF8\<close> calls \<^verbatim>\<open>llvm::convertUTF8Sequence\<close> with
  \<^verbatim>\<open>strictConversion\<close>. That function belongs to LLVM, not to this repository; what
  follows is its behaviour as LLVM's \<^verbatim>\<open>ConvertUTF\<close> implements it: the lead byte
  gives the length of the sequence, a sequence that does not fit before \<^verbatim>\<open>endPtr\<close>
  or is not legal UTF-8 fails and leaves the pointer where it was, a legal one yields
  the pointer after the sequence and the code point.
\<close>

definition trailingBytesForUTF8 :: "nat \<Rightarrow> nat" where
  "trailingBytesForUTF8 b =
     (if b < 0xC0 then 0 else if b < 0xE0 then 1 else if b < 0xF0 then 2
      else if b < 0xF8 then 3 else if b < 0xFC then 4 else 5)"

definition offsetsFromUTF8 :: "nat \<Rightarrow> nat" where
  "offsetsFromUTF8 n =
     (if n = 0 then 0 else if n = 1 then 0x3080 else if n = 2 then 0xE2080
      else if n = 3 then 0x3C82080 else if n = 4 then 0xFA082080 else 0x82082080)"

definition isContinuation :: "nat \<Rightarrow> bool" where
  "isContinuation a = (0x80 \<le> a \<and> a \<le> 0xBF)"

definition secondByteLegal :: "nat \<Rightarrow> nat \<Rightarrow> bool" where
  "secondByteLegal b0 a =
     (if b0 = 0xE0 then 0xA0 \<le> a else if b0 = 0xED then a \<le> 0x9F
      else if b0 = 0xF0 then 0x90 \<le> a else if b0 = 0xF4 then a \<le> 0x8F
      else 0x80 \<le> a)"

definition leadByteLegal :: "nat \<Rightarrow> bool" where
  "leadByteLegal b0 = ((b0 < 0x80 \<or> 0xC2 \<le> b0) \<and> b0 \<le> 0xF4)"

fun isLegalUTF8 :: "nat list \<Rightarrow> bool" where
  "isLegalUTF8 [b0] = leadByteLegal b0"
| "isLegalUTF8 [b0, a] =
     (isContinuation a \<and> secondByteLegal b0 a \<and> leadByteLegal b0)"
| "isLegalUTF8 [b0, a, b] =
     (isContinuation b \<and> isContinuation a \<and> secondByteLegal b0 a \<and> leadByteLegal b0)"
| "isLegalUTF8 [b0, a, b, c] =
     (isContinuation c \<and> isContinuation b \<and> isContinuation a \<and>
      secondByteLegal b0 a \<and> leadByteLegal b0)"
| "isLegalUTF8 _ = False"

definition convertUTF8Sequence :: "string \<Rightarrow> nat \<Rightarrow> (nat \<times> nat) option" where
  "convertUTF8Sequence buf p =
     (if length buf \<le> p then None
      else
        let size = trailingBytesForUTF8 (of_char (buf ! p)) + 1 in
        if length buf - p < size then None
        else
          let bs = map of_char (take size (drop p buf)) in
          if isLegalUTF8 bs
          then
            let ch = foldl (\<lambda>acc b. acc * 64 + b) 0 bs - offsetsFromUTF8 (size - 1) in
            if ch \<le> 0x10FFFF \<and> (ch < 0xD800 \<or> 0xDFFF < ch) then Some (p + size, ch)
            else None
          else None)"

definition isUnicodeLT :: "nat \<Rightarrow> bool" where
  "isUnicodeLT x = (x = 0x2028 \<or> x = 0x2029)"

section \<open>Numeric literals\<close>

text \<open>
  Every \<^verbatim>\<open>while (true) { switch (ptr[0]) ... }\<close> loop of the numeric scanners is a
  recursive function of the scanner state: \<^verbatim>\<open>continue\<close> is the recursive call. The
  loops end because every round moves the pointer towards the sentinel.
\<close>

text \<open>\<^verbatim>\<open>do { ++ptr; ++col; } while (isDigit(ptr[0]));\<close> of \<^verbatim>\<open>lexFloatLiteral\<close>.\<close>

function floatFraction :: "string \<Rightarrow> Lexer \<Rightarrow> Lexer" where
  "floatFraction buf st =
     (if peekIs isDigit buf (ptr st + 1) then floatFraction buf (advance 1 st)
      else advance 1 st)"
  by pat_completeness auto
termination
  by (relation "measure (\<lambda>(buf, st). length buf - ptr st)")
     (auto simp: peekIs_def peek_def advance_def isDigit_def toUInt32_def split: if_splits)

text \<open>The exponent loop of \<^verbatim>\<open>lexFloatLiteral\<close>.\<close>

function floatExponent ::
  "string \<Rightarrow> nat \<Rightarrow> int \<Rightarrow> bool \<Rightarrow> Token \<Rightarrow> Lexer \<Rightarrow> unit result" where
  "floatExponent buf startPtr startCol alt tok st =
     (case peek buf (ptr st) of
        None \<Rightarrow> OutOfBounds st
      | Some c \<Rightarrow>
          if c \<in> set ''0123456789'' then
            floatExponent buf startPtr startCol alt tok (advance 1 st)
          else if c = CHR ''_'' then
            (if \<not> peekIs isDigit buf (ptr st + 1) then
               let st1 = diagnoseInvalidNumericSeparator buf st in
               Returned () (st1\<lparr>ptr := ptr st1 + 1\<rparr>)
                 (Token_set_text FloatLiteral (line st1) startCol alt
                    (startPtr, ptr st1 - startPtr) tok)
             else floatExponent buf startPtr startCol alt tok (advance 2 st))
          else
            Returned () st
              (Token_set_text FloatLiteral (line st) startCol alt
                 (startPtr, ptr st - startPtr) tok))"
  by pat_completeness auto
termination
  by (relation "measure (\<lambda>(buf, startPtr, startCol, alt, tok, st). length buf - ptr st)")
     (auto simp: peekIs_def peek_def advance_def split: if_splits)

definition lexFloatLiteral ::
  "string \<Rightarrow> nat \<Rightarrow> int \<Rightarrow> bool \<Rightarrow> Token \<Rightarrow> Lexer \<Rightarrow> unit result" where
  "lexFloatLiteral buf startPtr startCol alt tok st0 =
     (let st = floatFraction buf st0 in
      case peek buf (ptr st) of
        None \<Rightarrow> OutOfBounds st
      | Some c \<Rightarrow>
          if c \<noteq> CHR ''e'' \<and> c \<noteq> CHR ''E'' then
            Returned () st
              (Token_set_text FloatLiteral (line st) startCol alt
                 (startPtr, ptr st - startPtr) tok)
          else if peek buf (ptr st + 1) = Some (CHR ''+'') \<or>
                  peek buf (ptr st + 1) = Some (CHR ''-'') then
            floatExponent buf startPtr startCol alt tok (advance 2 st)
          else floatExponent buf startPtr startCol alt tok (advance 1 st))"

text \<open>The loop of \<^verbatim>\<open>lexNumericLiteral\<close>, and the function itself.\<close>

function numericLoop ::
  "string \<Rightarrow> nat \<Rightarrow> int \<Rightarrow> bool \<Rightarrow> Token \<Rightarrow> Lexer \<Rightarrow> unit result" where
  "numericLoop buf startPtr startCol alt tok st =
     (case peek buf (ptr st) of
        None \<Rightarrow> OutOfBounds st
      | Some c \<Rightarrow>
          if c \<in> set ''0123456789'' then
            numericLoop buf startPtr startCol alt tok (advance 1 st)
          else if c = CHR ''_'' then
            (if \<not> peekIs isDigit buf (ptr st + 1) then
               let st1 = diagnoseInvalidNumericSeparator buf st in
               Returned () (st1\<lparr>ptr := ptr st1 + 1\<rparr>)
                 (Token_set_text DecimalLiteral (line st1) startCol alt
                    (startPtr, ptr st1 - startPtr) tok)
             else numericLoop buf startPtr startCol alt tok (advance 2 st))
          else if c = CHR ''n'' then
            Returned () (advance 1 st)
              (Token_set_text DecimalBigIntLiteral (line st) startCol alt
                 (startPtr, ptr st - startPtr) tok)
          else if c = CHR ''.'' then
            lexFloatLiteral buf startPtr startCol alt tok st
          else
            Returned () st
              (Token_set_text DecimalLiteral (line st) startCol alt
                 (startPtr, ptr st - startPtr) tok))"
  by pat_completeness auto
termination
  by (relation "measure (\<lambda>(buf, startPtr, startCol, alt, tok, st). length buf - ptr st)")
     (auto simp: peekIs_def peek_def advance_def split: if_splits)

definition lexNumericLiteral :: "string \<Rightarrow> bool \<Rightarrow> Token \<Rightarrow> Lexer \<Rightarrow> unit result" where
  "lexNumericLiteral buf alt tok st =
     numericLoop buf (ptr st) (col st) alt tok (advance 1 st)"

text \<open>
  \<^verbatim>\<open>lexHexNumericLiteral\<close>, \<^verbatim>\<open>lexOctalNumericLiteral\<close> and
  \<^verbatim>\<open>lexBinaryNumericLiteral\<close>: the prefix is consumed, a first digit of the radix
  is required, then the digit loop runs.
\<close>

function hexLoop ::
  "string \<Rightarrow> nat \<Rightarrow> int \<Rightarrow> bool \<Rightarrow> Token \<Rightarrow> Lexer \<Rightarrow> unit result" where
  "hexLoop buf startPtr startCol alt tok st =
     (case peek buf (ptr st) of
        None \<Rightarrow> OutOfBounds st
      | Some c \<Rightarrow>
          if c \<in> set ''0123456789abcdefABCDEF'' then
            hexLoop buf startPtr startCol alt tok (advance 1 st)
          else if c = CHR ''_'' then
            (if \<not> peekIs isHexDigit buf (ptr st + 1) then
               let st1 = diagnoseInvalidNumericSeparator buf st in
               Returned () (advance 1 st1)
                 (Token_set_text HexLiteral (line st1) startCol alt
                    (startPtr, ptr st1 - startPtr) tok)
             else hexLoop buf startPtr startCol alt tok (advance 2 st))
          else if c = CHR ''n'' then
            Returned () (advance 1 st)
              (Token_set_text HexBigIntLiteral (line st) startCol alt
                 (startPtr, ptr st - startPtr) tok)
          else
            Returned () st
              (Token_set_text HexLiteral (line st) startCol alt
                 (startPtr, ptr st - startPtr) tok))"
  by pat_completeness auto
termination
  by (relation "measure (\<lambda>(buf, startPtr, startCol, alt, tok, st). length buf - ptr st)")
     (auto simp: peekIs_def peek_def advance_def isHexDigit_def split: if_splits)

definition lexHexNumericLiteral :: "string \<Rightarrow> bool \<Rightarrow> Token \<Rightarrow> Lexer \<Rightarrow> unit result" where
  "lexHexNumericLiteral buf alt tok st0 =
     (let startCol = col st0; st = advance 2 st0; startPtr = ptr st in
      if \<not> peekIs isHexDigit buf (ptr st) then
        let st1 = diagnoseMalformedRadixInt buf ''hexadecimal'' ''0x'' st in
        Returned () st1 (Token_set ZeroLiteral (line st1) startCol alt tok)
      else hexLoop buf startPtr startCol alt tok (advance 1 st))"

function octalLoop ::
  "string \<Rightarrow> nat \<Rightarrow> int \<Rightarrow> bool \<Rightarrow> Token \<Rightarrow> Lexer \<Rightarrow> unit result" where
  "octalLoop buf startPtr startCol alt tok st =
     (case peek buf (ptr st) of
        None \<Rightarrow> OutOfBounds st
      | Some c \<Rightarrow>
          if c \<in> set ''01234567'' then
            octalLoop buf startPtr startCol alt tok (advance 1 st)
          else if c = CHR ''_'' then
            (if \<not> peekIs isOctalDigit buf (ptr st + 1) then
               let st1 = diagnoseInvalidNumericSeparator buf st in
               Returned () (advance 1 st1)
                 (Token_set_text OctalLiteral (line st1) startCol alt
                    (startPtr, ptr st1 - startPtr) tok)
             else octalLoop buf startPtr startCol alt tok (advance 2 st))
          else if c = CHR ''n'' then
            Returned () (advance 1 st)
              (Token_set_text OctalBigIntLiteral (line st) startCol alt
                 (startPtr, ptr st - startPtr) tok)
          else
            Returned () st
              (Token_set_text OctalLiteral (line st) startCol alt
                 (startPtr, ptr st - startPtr) tok))"
  by pat_completeness auto
termination
  by (relation "measure (\<lambda>(buf, startPtr, startCol, alt, tok, st). length buf - ptr st)")
     (auto simp: peekIs_def peek_def advance_def split: if_splits)

definition lexOctalNumericLiteral :: "string \<Rightarrow> bool \<Rightarrow> Token \<Rightarrow> Lexer \<Rightarrow> unit result" where
  "lexOctalNumericLiteral buf alt tok st0 =
     (let startCol = col st0; st = advance 2 st0; startPtr = ptr st in
      if \<not> peekIs isOctalDigit buf (ptr st) then
        let st1 = diagnoseMalformedRadixInt buf ''octal'' ''0o'' st in
        Returned () st1 (Token_set ZeroLiteral (line st1) startCol alt tok)
      else octalLoop buf startPtr startCol alt tok (advance 1 st))"

function binaryLoop ::
  "string \<Rightarrow> nat \<Rightarrow> int \<Rightarrow> bool \<Rightarrow> Token \<Rightarrow> Lexer \<Rightarrow> unit result" where
  "binaryLoop buf startPtr startCol alt tok st =
     (case peek buf (ptr st) of
        None \<Rightarrow> OutOfBounds st
      | Some c \<Rightarrow>
          if c \<in> set ''01'' then
            binaryLoop buf startPtr startCol alt tok (advance 1 st)
          else if c = CHR ''_'' then
            (if \<not> peekIs isBinaryDigit buf (ptr st + 1) then
               let st1 = diagnoseInvalidNumericSeparator buf st in
               Returned () (advance 1 st1)
                 (Token_set_text BinaryLiteral (line st1) startCol alt
                    (startPtr, ptr st1 - startPtr) tok)
             else binaryLoop buf startPtr startCol alt tok (advance 2 st))
          else if c = CHR ''n'' then
            Returned () (advance 1 st)
              (Token_set_text BinaryBigIntLiteral (line st) startCol alt
                 (startPtr, ptr st - startPtr) tok)
          else
            Returned () st
              (Token_set_text BinaryLiteral (line st) startCol alt
                 (startPtr, ptr st - startPtr) tok))"
  by pat_completeness auto
termination
  by (relation "measure (\<lambda>(buf, startPtr, startCol, alt, tok, st). length buf - ptr st)")
     (auto simp: peekIs_def peek_def advance_def split: if_splits)

definition lexBinaryNumericLiteral :: "string \<Rightarrow> bool \<Rightarrow> Token \<Rightarrow> Lexer \<Rightarrow> unit result" where
  "lexBinaryNumericLiteral buf alt tok st0 =
     (let startCol = col st0; st = advance 2 st0; startPtr = ptr st in
      if \<not> peekIs isBinaryDigit buf (ptr st) then
        let st1 = diagnoseMalformedRadixInt buf ''binary'' ''0b'' st in
        Returned () st1 (Token_set ZeroLiteral (line st1) startCol alt tok)
      else binaryLoop buf startPtr startCol alt tok (advance 1 st))"

text \<open>
  \<^verbatim>\<open>lexLegacyOctalLiteral\<close>. \<^verbatim>\<open>UserOpts::strictModeEnabled\<close> is a process-wide
  flag that the scanner only reads; it is the argument \<open>strictModeEnabled\<close>. The
  strict-mode diagnostic is written after the token has been set.
\<close>

function legacyOctalLoop ::
  "bool \<Rightarrow> string \<Rightarrow> nat \<Rightarrow> int \<Rightarrow> bool \<Rightarrow> Token \<Rightarrow> Lexer \<Rightarrow> unit result" where
  "legacyOctalLoop strictModeEnabled buf startPtr startCol alt tok st =
     (case peek buf (ptr st) of
        None \<Rightarrow> OutOfBounds st
      | Some c \<Rightarrow>
          if c \<in> set ''01234567'' then
            legacyOctalLoop strictModeEnabled buf startPtr startCol alt tok (advance 1 st)
          else if c = CHR ''_'' then
            (if \<not> peekIs isOctalDigit buf (ptr st + 1) then
               let st1 = diagnoseInvalidNumericSeparator buf st in
               Returned () (advance 1 st1)
                 (Token_set_text OctalLiteral (line st1) startCol alt
                    (startPtr, ptr st1 - startPtr) tok)
             else legacyOctalLoop strictModeEnabled buf startPtr startCol alt tok (advance 2 st))
          else
            Returned ()
              (if strictModeEnabled then
                 st\<lparr>errs := errs st @ [(line st, startCol, LegacyOctalInStrictMode)],
                    lexerFailed := True\<rparr>
               else st)
              (Token_set_text OctalLiteral (line st) startCol alt
                 (startPtr, ptr st - startPtr) tok))"
  by pat_completeness auto
termination
  by (relation "measure (\<lambda>(strictModeEnabled, buf, startPtr, startCol, alt, tok, st).
        length buf - ptr st)")
     (auto simp: peekIs_def peek_def advance_def split: if_splits)

definition lexLegacyOctalLiteral ::
  "bool \<Rightarrow> string \<Rightarrow> bool \<Rightarrow> Token \<Rightarrow> Lexer \<Rightarrow> unit result" where
  "lexLegacyOctalLiteral strictModeEnabled buf alt tok st0 =
     (let startPtr = ptr st0 + 1; startCol = col st0;
          st = st0\<lparr>ptr := ptr st0 + 2, col := col st0 + 2\<rparr>
      in legacyOctalLoop strictModeEnabled buf startPtr startCol alt tok st)"

section \<open>String literals\<close>

text \<open>
  \<^verbatim>\<open>lexDoubleQuoteStrLiteral\<close> and \<^verbatim>\<open>lexSingleQuoteStrLiteral\<close>. The loop tests
  for the closing quote, then for an ASCII byte, then decodes UTF-8; it has no test for
  \<^verbatim>\<open>endPtr\<close>. The sentinel is an ASCII byte, so the loop steps over it, and its next
  read is past the sentinel.
\<close>

function stringLoop ::
  "char \<Rightarrow> string \<Rightarrow> nat \<Rightarrow> int \<Rightarrow> bool \<Rightarrow> Token \<Rightarrow> Lexer \<Rightarrow> unit result" where
  "stringLoop quote buf startPtr startCol alt tok st =
     (case peek buf (ptr st) of
        None \<Rightarrow> OutOfBounds st
      | Some c \<Rightarrow>
          if c = quote then
            Returned () (advance 1 st)
              (Token_set_text StringLiteral (line st) startCol alt
                 (startPtr, ptr st - startPtr) tok)
          else if isAscii c then
            stringLoop quote buf startPtr startCol alt tok (advance 1 st)
          else
            (case convertUTF8Sequence buf (ptr st) of
               None \<Rightarrow>
                 stringLoop quote buf startPtr startCol alt tok (diagnoseInvalidUTF8 st)
             | Some r \<Rightarrow>
                 stringLoop quote buf startPtr startCol alt tok
                   (st\<lparr>ptr := fst r, col := col st + 1\<rparr>)))"
  by pat_completeness auto
termination
  by (relation "measure (\<lambda>(quote, buf, startPtr, startCol, alt, tok, st).
        length buf + 1 - ptr st)")
     (auto simp: peek_def advance_def diagnoseInvalidUTF8_def convertUTF8Sequence_def Let_def
           split: if_splits)

definition lexDoubleQuoteStrLiteral :: "string \<Rightarrow> bool \<Rightarrow> Token \<Rightarrow> Lexer \<Rightarrow> unit result" where
  "lexDoubleQuoteStrLiteral buf alt tok st =
     stringLoop (CHR 0x22) buf (ptr st + 1) (col st) alt tok (advance 1 st)"

definition lexSingleQuoteStrLiteral :: "string \<Rightarrow> bool \<Rightarrow> Token \<Rightarrow> Lexer \<Rightarrow> unit result" where
  "lexSingleQuoteStrLiteral buf alt tok st =
     stringLoop (CHR 0x27) buf (ptr st + 1) (col st) alt tok (advance 1 st)"

section \<open>Comments\<close>

text \<open>
  The loops of the two comment scanners can run for ever, so they are partial
  functions: the value \<open>None\<close> is a call that does not return.
  \<^verbatim>\<open>lexSingleLineComment\<close> returns \<^verbatim>\<open>true\<close> after a line terminator and
  \<^verbatim>\<open>false\<close> after writing \<^verbatim>\<open>FileEnd\<close>.
\<close>

partial_function (option) singleLineCommentLoop ::
  "string \<Rightarrow> bool \<Rightarrow> Token \<Rightarrow> Lexer \<Rightarrow> bool result option" where
  "singleLineCommentLoop buf alt tok st =
     (case peek buf (ptr st) of
        None \<Rightarrow> Some (OutOfBounds st)
      | Some c \<Rightarrow>
          if c = CHR 0x00 then
            (if ptr st = length buf then
               Some (Returned False st (Token_set FileEnd (line st) (col st) alt tok))
             else singleLineCommentLoop buf alt tok (diagnoseUnexpectedNull st))
          else if c = CHR 0x0A then
            Some (Returned True (st\<lparr>line := line st + 1, col := 1, ptr := ptr st + 1\<rparr>) tok)
          else if c = CHR 0x0D then
            Some (Returned True
              (st\<lparr>line := line st + 1, col := 1,
                  ptr := (if peek buf (ptr st + 1) = Some (CHR 0x0A) then ptr st + 2
                          else ptr st + 1)\<rparr>) tok)
          else if isAscii c then singleLineCommentLoop buf alt tok (advance 1 st)
          else
            (case convertUTF8Sequence buf (ptr st) of
               None \<Rightarrow> singleLineCommentLoop buf alt tok (diagnoseInvalidUTF8 st)
             | Some r \<Rightarrow>
                 if isUnicodeLT (snd r) then
                   Some (Returned True (st\<lparr>ptr := fst r, line := line st + 1, col := 1\<rparr>) tok)
                 else
                   singleLineCommentLoop buf alt tok (st\<lparr>ptr := fst r, col := col st + 1\<rparr>)))"

definition lexSingleLineComment ::
  "string \<Rightarrow> bool \<Rightarrow> Token \<Rightarrow> Lexer \<Rightarrow> bool result option" where
  "lexSingleLineComment buf alt tok st = singleLineCommentLoop buf alt tok (advance 2 st)"

text \<open>
  \<^verbatim>\<open>lexMultiLineComment\<close> takes \<^verbatim>\<open>afterLineTerminator\<close> by reference: the value
  returned is the pair of the function's \<^verbatim>\<open>bool\<close> and the flag as the function
  leaves it.
\<close>

partial_function (option) multiLineCommentLoop ::
  "string \<Rightarrow> bool \<Rightarrow> Token \<Rightarrow> Lexer \<Rightarrow> (bool \<times> bool) result option" where
  "multiLineCommentLoop buf alt tok st =
     (case peek buf (ptr st) of
        None \<Rightarrow> Some (OutOfBounds st)
      | Some c \<Rightarrow>
          if c = CHR ''*'' then
            (if peek buf (ptr st + 1) = Some (CHR ''/'') then
               Some (Returned (True, alt) (advance 2 st) tok)
             else multiLineCommentLoop buf alt tok (advance 1 st))
          else if c = CHR 0x00 then
            (if ptr st = length buf then
               Some (Returned (False, alt)
                 (st\<lparr>errs := errs st @ [(line st, col st, UnexpectedEndOfFileInComment)]\<rparr>)
                 (Token_set FileEnd (line st) (col st) alt tok))
             else multiLineCommentLoop buf alt tok (diagnoseUnexpectedNull st))
          else if c = CHR 0x0A then
            multiLineCommentLoop buf True tok
              (st\<lparr>line := line st + 1, col := 1, ptr := ptr st + 1\<rparr>)
          else if c = CHR 0x0D then
            multiLineCommentLoop buf True tok
              (st\<lparr>line := line st + 1, col := 1,
                  ptr := (if peek buf (ptr st + 1) = Some (CHR 0x0A) then ptr st + 2
                          else ptr st + 1)\<rparr>)
          else if isAscii c then multiLineCommentLoop buf alt tok (advance 1 st)
          else
            (case convertUTF8Sequence buf (ptr st) of
               None \<Rightarrow> multiLineCommentLoop buf alt tok (diagnoseInvalidUTF8 st)
             | Some r \<Rightarrow>
                 if isUnicodeLT (snd r) then
                   multiLineCommentLoop buf True tok
                     (st\<lparr>ptr := fst r, line := line st + 1, col := 1\<rparr>)
                 else
                   multiLineCommentLoop buf alt tok (st\<lparr>ptr := fst r, col := col st + 1\<rparr>)))"

definition lexMultiLineComment ::
  "string \<Rightarrow> bool \<Rightarrow> Token \<Rightarrow> Lexer \<Rightarrow> (bool \<times> bool) result option" where
  "lexMultiLineComment buf alt tok st = multiLineCommentLoop buf alt tok (advance 2 st)"

section \<open>The dispatcher\<close>

text \<open>The loop \<^verbatim>\<open>while (isHorizontalWhitespace(ptr[0])) { ++col; ++ptr; }\<close>.\<close>

function skipHorizontalWhitespace :: "string \<Rightarrow> Lexer \<Rightarrow> Lexer" where
  "skipHorizontalWhitespace buf st =
     (if peekIs isHorizontalWhitespace buf (ptr st)
      then skipHorizontalWhitespace buf (advance 1 st)
      else st)"
  by pat_completeness auto
termination
  by (relation "measure (\<lambda>(buf, st). length buf - ptr st)")
     (auto simp: peekIs_def peek_def advance_def isHorizontalWhitespace_def split: if_splits)

text \<open>
  One pass through the \<^verbatim>\<open>switch\<close> of \<^verbatim>\<open>lexToken\<close> ends the call (\<open>Finish\<close>) or
  jumps back to the label \<^verbatim>\<open>beginLexer\<close> with the state, the flag
  \<^verbatim>\<open>afterLineTerminator\<close> and the token slot as they are then.
\<close>

datatype step = Finish "unit result" | BeginLexer Lexer bool Token

text \<open>
  The common shape of a punctuator case: \<^verbatim>\<open>tok.set(k, line, col, afterLineTerminator);
  ptr += n; col += n; return;\<close> (with \<^verbatim>\<open>col++\<close> and \<^verbatim>\<open>++ptr\<close> for \<open>n = 1\<close>).
\<close>

definition punctuator :: "TokenKind \<Rightarrow> nat \<Rightarrow> bool \<Rightarrow> Token \<Rightarrow> Lexer \<Rightarrow> step option" where
  "punctuator k n alt tok st =
     Some (Finish (Returned () (advance n st) (Token_set k (line st) (col st) alt tok)))"

text \<open>
  The \<^verbatim>\<open>switch (ptr[0])\<close> of \<^verbatim>\<open>lexToken\<close>, case by case in the order of the
  source. The switch has no \<^verbatim>\<open>default\<close> label: for a byte that no case names,
  control leaves the switch and the function returns; that is the last branch.
\<close>

definition dispatch :: "bool \<Rightarrow> string \<Rightarrow> bool \<Rightarrow> Token \<Rightarrow> Lexer \<Rightarrow> step option" where
  "dispatch strictModeEnabled buf alt tok st =
     (let p1 = peek buf (ptr st + 1); p2 = peek buf (ptr st + 2); p3 = peek buf (ptr st + 3) in
      case peek buf (ptr st) of
        None \<Rightarrow> Some (Finish (OutOfBounds st))
      | Some c \<Rightarrow>
          if c = CHR 0x00 then
            (if ptr st = length buf then
               Some (Finish (Returned () st (Token_set FileEnd (line st) (col st) alt tok)))
             else Some (BeginLexer (diagnoseUnexpectedNull st) alt tok))
          else if c = CHR 0x0A then
            Some (BeginLexer (st\<lparr>line := line st + 1, col := 1, ptr := ptr st + 1\<rparr>) True tok)
          else if c = CHR 0x0D then
            Some (BeginLexer
              (st\<lparr>line := line st + 1, col := 1,
                  ptr := (if p1 = Some (CHR 0x0A) then ptr st + 2 else ptr st + 1)\<rparr>)
              True tok)
          else if c = CHR ''{'' then punctuator LeftCurly 1 alt tok st
          else if c = CHR ''}'' then punctuator RightCurly 1 alt tok st
          else if c = CHR ''('' then punctuator LeftParenthasis 1 alt tok st
          else if c = CHR '')'' then punctuator RightParenthasis 1 alt tok st
          else if c = CHR ''['' then punctuator LeftSquare 1 alt tok st
          else if c = CHR '']'' then punctuator RightSquare 1 alt tok st
          else if c = CHR '';'' then punctuator Semicolon 1 alt tok st
          else if c = CHR '','' then punctuator Comma 1 alt tok st
          else if c = CHR '':'' then punctuator Colon 1 alt tok st
          else if c = CHR ''.'' then
            (if p1 = Some (CHR ''.'') \<and> p2 = Some (CHR ''.'')
             then punctuator DotDotDot 3 alt tok st
             else punctuator Dot 1 alt tok st)
          else if c = CHR ''<'' then
            (if p1 = Some (CHR ''='') then punctuator LessEquals 2 alt tok st
             else if p1 = Some (CHR ''<'') then
               (if p2 = Some (CHR ''='') then punctuator LessLessEquals 3 alt tok st
                else punctuator LessLess 2 alt tok st)
             else if p1 = Some (CHR ''/'') then punctuator LessSlash 2 alt tok st
             else punctuator Less 1 alt tok st)
          else if c = CHR ''>'' then
            (if p1 = Some (CHR ''='') then punctuator GreaterEquals 2 alt tok st
             else if p1 = Some (CHR ''>'') then
               (if p2 = Some (CHR ''>'') then
                  (if p3 = Some (CHR ''='')
                   then punctuator GreaterGreaterGreaterEquals 4 alt tok st
                   else punctuator GreaterGreaterGreater 3 alt tok st)
                else if p2 = Some (CHR ''='') then punctuator GreaterGreaterEquals 3 alt tok st
                else punctuator GreaterGreater 2 alt tok st)
             else punctuator Greater 1 alt tok st)
          else if c = CHR ''='' then
            (if p1 = Some (CHR ''='') then
               (if p2 = Some (CHR ''='') then punctuator EqualsEqualsEquals 3 alt tok st
                else punctuator EqualsEquals 2 alt tok st)
             else if p1 = Some (CHR ''>'') then punctuator EqualsGreater 2 alt tok st
             else punctuator Equals 1 alt tok st)
          else if c = CHR ''!'' then
            (if p1 = Some (CHR ''='') then
               (if p2 = Some (CHR ''='') then punctuator ExclaimationEqualsEquals 3 alt tok st
                else punctuator ExclaimationEquals 2 alt tok st)
             else punctuator Exclaimation 1 alt tok st)
          else if c = CHR ''+'' then
            (if p1 = Some (CHR ''+'') then punctuator PlusPlus 2 alt tok st
             else if p1 = Some (CHR ''='') then punctuator PlusEquals 2 alt tok st
             else punctuator Plus 1 alt tok st)
          else if c = CHR ''-'' then
            (if p1 = Some (CHR ''-'') then punctuator MinusMinus 2 alt tok st
             else if p1 = Some (CHR ''='') then punctuator MinusEquals 2 alt tok st
             else punctuator Minus 1 alt tok st)
          else if c = CHR ''*'' then
            (if p1 = Some (CHR ''*'') then
               (if p2 = Some (CHR ''='') then punctuator AsteriskAsteriskEquals 3 alt tok st
                else punctuator AsteriskAsterisk 2 alt tok st)
             else if p1 = Some (CHR ''='') then punctuator AsteriskEquals 2 alt tok st
             else punctuator Asterisk 1 alt tok st)
          else if c = CHR ''/'' then
            (if p1 = Some (CHR ''='') then punctuator SlashEquals 2 alt tok st
             else if p1 = Some (CHR ''/'') then
               (case lexSingleLineComment buf alt tok st of
                  None \<Rightarrow> None
                | Some (OutOfBounds st') \<Rightarrow> Some (Finish (OutOfBounds st'))
                | Some (Returned again st' tok') \<Rightarrow>
                    if again then Some (BeginLexer st' True tok')
                    else Some (Finish (Returned () st' tok')))
             else if p1 = Some (CHR ''*'') then
               (case lexMultiLineComment buf alt tok st of
                  None \<Rightarrow> None
                | Some (OutOfBounds st') \<Rightarrow> Some (Finish (OutOfBounds st'))
                | Some (Returned again st' tok') \<Rightarrow>
                    if fst again then Some (BeginLexer st' (snd again) tok')
                    else Some (Finish (Returned () st' tok')))
             else punctuator Slash 1 alt tok st)
          else if c = CHR ''%'' then
            (if p1 = Some (CHR ''='') then punctuator PercentEquals 2 alt tok st
             else punctuator Percent 1 alt tok st)
          else if c = CHR ''&'' then
            (if p1 = Some (CHR ''='') then punctuator AmpersandEquals 2 alt tok st
             else if p1 = Some (CHR ''&'') then
               (if p2 = Some (CHR ''='') then punctuator AmpersandAmpersandEquals 3 alt tok st
                else punctuator AmpersandAmpersand 2 alt tok st)
             else punctuator Ampersand 1 alt tok st)
          else if c = CHR ''|'' then
            (if p1 = Some (CHR ''='') then punctuator BarEquals 2 alt tok st
             else if p1 = Some (CHR ''|'') then
               (if p2 = Some (CHR ''='') then punctuator BarBarEquals 3 alt tok st
                else punctuator BarBar 2 alt tok st)
             else punctuator Bar 1 alt tok st)
          else if c = CHR ''^'' then
            (if p1 = Some (CHR ''='') then punctuator CaretEquals 2 alt tok st
             else punctuator Caret 1 alt tok st)
          else if c = CHR ''~'' then punctuator Tilde 1 alt tok st
          else if c = CHR ''?'' then
            (if p1 = Some (CHR ''?'') then
               (if p2 = Some (CHR ''='') then punctuator QuestionQuestionEquals 3 alt tok st
                else punctuator QuestionQuestion 2 alt tok st)
             else if p1 = Some (CHR ''.'') then punctuator QuestionDot 2 alt tok st
             else
               Some (Finish (Returned () (st\<lparr>col := col st + 1 + 1\<rparr>)
                 (Token_set Question (line st) (col st) alt tok))))
          else if c \<in> set ''123456789'' then
            Some (Finish (lexNumericLiteral buf alt tok st))
          else if c = CHR ''0'' then
            (if p1 = Some (CHR ''.'') then
               Some (Finish (lexFloatLiteral buf (ptr st) (col st) alt tok (advance 1 st)))
             else if p1 = Some (CHR ''x'') \<or> p1 = Some (CHR ''X'') then
               Some (Finish (lexHexNumericLiteral buf alt tok st))
             else if p1 = Some (CHR ''O'') \<or> p1 = Some (CHR ''o'') then
               Some (Finish (lexOctalNumericLiteral buf alt tok st))
             else if p1 = Some (CHR ''b'') \<or> p1 = Some (CHR ''B'') then
               Some (Finish (lexBinaryNumericLiteral buf alt tok st))
             else if p1 = Some (CHR ''n'') then punctuator ZeroBigIntLiteral 2 alt tok st
             else if peekIs (\<lambda>d. d \<in> set ''01234567'') buf (ptr st + 1) then
               Some (Finish (lexLegacyOctalLiteral strictModeEnabled buf alt tok st))
             else
               Some (Finish (Returned () st (Token_set ZeroLiteral (line st) (col st) alt tok))))
          else if c = CHR 0x22 then Some (Finish (lexDoubleQuoteStrLiteral buf alt tok st))
          else if c = CHR 0x27 then Some (Finish (lexSingleQuoteStrLiteral buf alt tok st))
          else Some (Finish (Returned () st tok)))"

text \<open>
  \<^verbatim>\<open>lexToken\<close>: \<^verbatim>\<open>afterLineTerminator\<close> starts as \<^verbatim>\<open>false\<close>; from the label
  \<^verbatim>\<open>beginLexer\<close> on, horizontal whitespace is skipped and the switch is entered. A
  \<^verbatim>\<open>goto beginLexer\<close> is the recursive call. The jump can be taken for ever, so the
  function is partial: \<open>None\<close> is a call of \<^verbatim>\<open>lexToken\<close> that does not return.
\<close>

partial_function (option) beginLexer ::
  "bool \<Rightarrow> string \<Rightarrow> bool \<Rightarrow> Token \<Rightarrow> Lexer \<Rightarrow> unit result option" where
  "beginLexer strictModeEnabled buf alt tok st =
     (case dispatch strictModeEnabled buf alt tok (skipHorizontalWhitespace buf st) of
        None \<Rightarrow> None
      | Some (Finish r) \<Rightarrow> Some r
      | Some (BeginLexer st' alt' tok') \<Rightarrow> beginLexer strictModeEnabled buf alt' tok' st')"

definition lexToken :: "bool \<Rightarrow> string \<Rightarrow> Token \<Rightarrow> Lexer \<Rightarrow> unit result option" where
  "lexToken strictModeEnabled buf tok st = beginLexer strictModeEnabled buf False tok st"

text \<open>
  The constructor \<^verbatim>\<open>Lexer::Lexer\<close>: the pointer starts after a UTF-8 byte-order mark
  if the buffer begins with one, \<^verbatim>\<open>line\<close> and \<^verbatim>\<open>col\<close> start at 1.
\<close>

definition Lexer_new :: "string \<Rightarrow> Lexer" where
  "Lexer_new buf =
     \<lparr>ptr = (if take 3 buf = [CHR 0xEF, CHR 0xBB, CHR 0xBF] then 3 else 0),
      lexerFailed = False, line = 1, col = 1, errs = []\<rparr>"

text \<open>
  The recursive equations are code equations; as rewrite rules they are applied by
  hand, one unfolding at a time.
\<close>

declare beginLexer.simps [code]
declare singleLineCommentLoop.simps [code]
declare multiLineCommentLoop.simps [code]
declare floatFraction.simps [simp del]
declare floatExponent.simps [simp del]
declare numericLoop.simps [simp del]
declare hexLoop.simps [simp del]
declare octalLoop.simps [simp del]
declare binaryLoop.simps [simp del]
declare legacyOctalLoop.simps [simp del]
declare stringLoop.simps [simp del]
declare skipHorizontalWhitespace.simps [simp del]

text \<open>
  \<open>n\<close> successive calls of \<^verbatim>\<open>lexToken\<close> on the same token slot, as a caller makes
  them; the run stops early at a call that does not return normally.
\<close>

fun lexTokens :: "nat \<Rightarrow> bool \<Rightarrow> string \<Rightarrow> Token \<Rightarrow> Lexer \<Rightarrow> unit result option" where
  "lexTokens 0 strictModeEnabled buf tok st = Some (Returned () st tok)"
| "lexTokens (Suc n) strictModeEnabled buf tok st =
     (case lexToken strictModeEnabled buf tok st of
        Some (Returned u st' tok') \<Rightarrow> lexTokens n strictModeEnabled buf tok' st'
      | Some (OutOfBounds st') \<Rightarrow> Some (OutOfBounds st')
      | None \<Rightarrow> None)"

text \<open>A zero-initialised token slot, for the examples.\<close>

definition Token_zero :: Token where
  "Token_zero =
     \<lparr>kind = FileEnd, tokLine = 0, tokCol = 0, tokText = (0, 0), afterLineTerminator = False\<rparr>"

section \<open>Which fields of the token slot a call writes\<close>

text \<open>
  The kinds that are set through the five-argument \<^verbatim>\<open>Token::set\<close>, with a lexeme:
  every numeric literal except the two zero literals, and the string literal.
\<close>

definition hasLexeme :: "TokenKind \<Rightarrow> bool" where
  "hasLexeme k =
     (k \<in> {DecimalLiteral, DecimalBigIntLiteral, FloatLiteral, HexLiteral,
            HexBigIntLiteral, OctalLiteral, OctalBigIntLiteral, BinaryLiteral,
            BinaryBigIntLiteral, StringLiteral})"

text \<open>
  What a radix scanner leaves in the slot: a literal with a lexeme, or the placeholder
  \<^verbatim>\<open>ZeroLiteral\<close> with the text untouched.
\<close>

definition literalWritten :: "Token \<Rightarrow> Token \<Rightarrow> bool" where
  "literalWritten tok tok' =
     (hasLexeme (kind tok') \<or> (kind tok' = ZeroLiteral \<and> tokText tok' = tokText tok))"

text \<open>
  What a comment scanner leaves: after \<^verbatim>\<open>true\<close> the slot is untouched, after
  \<^verbatim>\<open>false\<close> it holds \<^verbatim>\<open>FileEnd\<close> with the old text and the pointer is at
  \<^verbatim>\<open>endPtr\<close>.
\<close>

definition commentEnd :: "string \<Rightarrow> Token \<Rightarrow> bool \<Rightarrow> Lexer \<Rightarrow> Token \<Rightarrow> bool" where
  "commentEnd buf tok again st' tok' =
     (if again then tok' = tok
      else kind tok' = FileEnd \<and> tokText tok' = tokText tok \<and> ptr st' = length buf)"

text \<open>
  The frame of a returning call, from the slot \<open>tok\<close> before it to the slot \<open>tok'\<close>
  and the state \<open>st'\<close> after it: the text changes only under a kind with a lexeme, and
  \<^verbatim>\<open>FileEnd\<close> newly in the slot means that the pointer is at \<^verbatim>\<open>endPtr\<close>.
\<close>

definition frame :: "string \<Rightarrow> Token \<Rightarrow> Lexer \<Rightarrow> Token \<Rightarrow> bool" where
  "frame buf tok st' tok' =
     ((hasLexeme (kind tok') \<or> tokText tok' = tokText tok) \<and>
      (kind tok = FileEnd \<or> ptr st' = length buf \<or> kind tok' \<noteq> FileEnd))"

text \<open>
  The frame for one pass through the switch: a pass that ends the call keeps the frame,
  a pass that jumps back to \<^verbatim>\<open>beginLexer\<close> has not touched the slot.
\<close>

fun stepOK :: "string \<Rightarrow> Token \<Rightarrow> step option \<Rightarrow> bool" where
  "stepOK buf tok None = True"
| "stepOK buf tok (Some (Finish (OutOfBounds st'))) = True"
| "stepOK buf tok (Some (Finish (Returned u st' tok'))) = frame buf tok st' tok'"
| "stepOK buf tok (Some (BeginLexer st' alt' tok')) = (tok' = tok)"

subsection \<open>The literal scanners\<close>

lemma floatExponent_kind:
  "floatExponent buf sp sc alt tok st = Returned u st' tok' \<Longrightarrow> hasLexeme (kind tok')"
proof (induction buf sp sc alt tok st rule: floatExponent.induct)
  case (1 buf sp sc alt tok st)
  show ?case
    using "1.prems" "1.IH"
    by (subst (asm) floatExponent.simps)
       (auto split: option.splits if_splits simp: Token_set_text_def hasLexeme_def Let_def)
qed

lemma lexFloatLiteral_kind:
  "lexFloatLiteral buf sp sc alt tok st = Returned u st' tok' \<Longrightarrow> hasLexeme (kind tok')"
  by (auto simp: lexFloatLiteral_def Let_def Token_set_text_def hasLexeme_def
      split: option.splits if_splits dest: floatExponent_kind)

lemma numericLoop_kind:
  "numericLoop buf sp sc alt tok st = Returned u st' tok' \<Longrightarrow> hasLexeme (kind tok')"
proof (induction buf sp sc alt tok st rule: numericLoop.induct)
  case (1 buf sp sc alt tok st)
  show ?case
    using "1.prems" "1.IH"
    by (subst (asm) numericLoop.simps)
       (auto split: option.splits if_splits simp: Token_set_text_def hasLexeme_def Let_def
          dest: lexFloatLiteral_kind)
qed

lemma lexNumericLiteral_kind:
  "lexNumericLiteral buf alt tok st = Returned u st' tok' \<Longrightarrow> hasLexeme (kind tok')"
  by (auto simp: lexNumericLiteral_def dest: numericLoop_kind)

lemma hexLoop_kind:
  "hexLoop buf sp sc alt tok st = Returned u st' tok' \<Longrightarrow> hasLexeme (kind tok')"
proof (induction buf sp sc alt tok st rule: hexLoop.induct)
  case (1 buf sp sc alt tok st)
  show ?case
    using "1.prems" "1.IH"
    by (subst (asm) hexLoop.simps)
       (auto split: option.splits if_splits simp: Token_set_text_def hasLexeme_def Let_def)
qed

lemma octalLoop_kind:
  "octalLoop buf sp sc alt tok st = Returned u st' tok' \<Longrightarrow> hasLexeme (kind tok')"
proof (induction buf sp sc alt tok st rule: octalLoop.induct)
  case (1 buf sp sc alt tok st)
  show ?case
    using "1.prems" "1.IH"
    by (subst (asm) octalLoop.simps)
       (auto split: option.splits if_splits simp: Token_set_text_def hasLexeme_def Let_def)
qed

lemma binaryLoop_kind:
  "binaryLoop buf sp sc alt tok st = Returned u st' tok' \<Longrightarrow> hasLexeme (kind tok')"
proof (induction buf sp sc alt tok st rule: binaryLoop.induct)
  case (1 buf sp sc alt tok st)
  show ?case
    using "1.prems" "1.IH"
    by (subst (asm) binaryLoop.simps)
       (auto split: option.splits if_splits simp: Token_set_text_def hasLexeme_def Let_def)
qed

lemma legacyOctalLoop_kind:
  "legacyOctalLoop strict buf sp sc alt tok st = Returned u st' tok' \<Longrightarrow>
   hasLexeme (kind tok')"
proof (induction strict buf sp sc alt tok st rule: legacyOctalLoop.induct)
  case (1 strict buf sp sc alt tok st)
  show ?case
    using "1.prems" "1.IH"
    by (subst (asm) legacyOctalLoop.simps)
       (auto split: option.splits if_splits simp: Token_set_text_def hasLexeme_def Let_def)
qed

lemma stringLoop_kind:
  "stringLoop q buf sp sc alt tok st = Returned u st' tok' \<Longrightarrow> hasLexeme (kind tok')"
proof (induction q buf sp sc alt tok st rule: stringLoop.induct)
  case (1 q buf sp sc alt tok st)
  show ?case
    using "1.prems" "1.IH"
    by (subst (asm) stringLoop.simps)
       (auto split: option.splits if_splits simp: Token_set_text_def hasLexeme_def Let_def)
qed

lemma lexHexNumericLiteral_kind:
  "lexHexNumericLiteral buf alt tok st = Returned u st' tok' \<Longrightarrow> literalWritten tok tok'"
  by (auto simp: lexHexNumericLiteral_def Let_def literalWritten_def Token_set_def
      split: if_splits dest: hexLoop_kind)

lemma lexOctalNumericLiteral_kind:
  "lexOctalNumericLiteral buf alt tok st = Returned u st' tok' \<Longrightarrow> literalWritten tok tok'"
  by (auto simp: lexOctalNumericLiteral_def Let_def literalWritten_def Token_set_def
      split: if_splits dest: octalLoop_kind)

lemma lexBinaryNumericLiteral_kind:
  "lexBinaryNumericLiteral buf alt tok st = Returned u st' tok' \<Longrightarrow> literalWritten tok tok'"
  by (auto simp: lexBinaryNumericLiteral_def Let_def literalWritten_def Token_set_def
      split: if_splits dest: binaryLoop_kind)

lemma lexLegacyOctalLiteral_kind:
  "lexLegacyOctalLiteral strict buf alt tok st = Returned u st' tok' \<Longrightarrow>
   hasLexeme (kind tok')"
  by (auto simp: lexLegacyOctalLiteral_def Let_def dest: legacyOctalLoop_kind)

lemma lexDoubleQuoteStrLiteral_kind:
  "lexDoubleQuoteStrLiteral buf alt tok st = Returned u st' tok' \<Longrightarrow> hasLexeme (kind tok')"
  by (auto simp: lexDoubleQuoteStrLiteral_def dest: stringLoop_kind)

lemma lexSingleQuoteStrLiteral_kind:
  "lexSingleQuoteStrLiteral buf alt tok st = Returned u st' tok' \<Longrightarrow> hasLexeme (kind tok')"
  by (auto simp: lexSingleQuoteStrLiteral_def dest: stringLoop_kind)

subsection \<open>The comment scanners\<close>

text \<open>Partial correctness of the two loops, by the fixpoint induction of their definitions.\<close>

lemma singleLineCommentLoop_end_aux:
  "singleLineCommentLoop buf alt tok st = Some y \<Longrightarrow>
   (case y of Returned again st' tok' \<Rightarrow> commentEnd buf tok again st' tok'
            | OutOfBounds st' \<Rightarrow> True)"
proof (induction rule: singleLineCommentLoop.raw_induct[rotated 1, consumes 1])
  case (1 loop buf alt tok st y)
  show ?case
    using "1.hyps" "1.IH"
    by (auto split: option.splits if_splits simp: Token_set_def commentEnd_def)
qed

lemma multiLineCommentLoop_end_aux:
  "multiLineCommentLoop buf alt tok st = Some y \<Longrightarrow>
   (case y of Returned again st' tok' \<Rightarrow> commentEnd buf tok (fst again) st' tok'
            | OutOfBounds st' \<Rightarrow> True)"
proof (induction rule: multiLineCommentLoop.raw_induct[rotated 1, consumes 1])
  case (1 loop buf alt tok st y)
  show ?case
    using "1.hyps" "1.IH"
    by (auto split: option.splits if_splits simp: Token_set_def commentEnd_def)
qed

lemma singleLineCommentLoop_end:
  "singleLineCommentLoop buf alt tok st = Some (Returned again st' tok') \<Longrightarrow>
   commentEnd buf tok again st' tok'"
  by (drule singleLineCommentLoop_end_aux) simp

lemma multiLineCommentLoop_end:
  "multiLineCommentLoop buf alt tok st = Some (Returned again st' tok') \<Longrightarrow>
   commentEnd buf tok (fst again) st' tok'"
  by (drule multiLineCommentLoop_end_aux) simp

subsection \<open>The dispatcher and \<^verbatim>\<open>lexToken\<close>\<close>

lemma hasLexeme_frame: "hasLexeme (kind tok') \<Longrightarrow> frame buf tok st' tok'"
  by (auto simp: frame_def hasLexeme_def)

lemma literalWritten_frame: "literalWritten tok tok' \<Longrightarrow> frame buf tok st' tok'"
  by (auto simp: frame_def literalWritten_def hasLexeme_def)

lemma stepOK_if:
  "(c \<Longrightarrow> stepOK buf tok x) \<Longrightarrow> (\<not> c \<Longrightarrow> stepOK buf tok y) \<Longrightarrow>
   stepOK buf tok (if c then x else y)"
  by simp

lemma stepOK_punctuator: "k \<noteq> FileEnd \<Longrightarrow> stepOK buf tok (punctuator k n alt tok st)"
  by (simp add: punctuator_def Token_set_def frame_def)

lemma stepOK_result:
  "(\<And>u st' tok'. r = Returned u st' tok' \<Longrightarrow> frame buf tok st' tok') \<Longrightarrow>
   stepOK buf tok (Some (Finish r))"
  by (cases r) simp_all

lemma stepOK_literal:
  "stepOK buf tok (Some (Finish (lexNumericLiteral buf alt tok st)))"
  "stepOK buf tok (Some (Finish (lexFloatLiteral buf sp sc alt tok st)))"
  "stepOK buf tok (Some (Finish (lexHexNumericLiteral buf alt tok st)))"
  "stepOK buf tok (Some (Finish (lexOctalNumericLiteral buf alt tok st)))"
  "stepOK buf tok (Some (Finish (lexBinaryNumericLiteral buf alt tok st)))"
  "stepOK buf tok (Some (Finish (lexLegacyOctalLiteral strict buf alt tok st)))"
  "stepOK buf tok (Some (Finish (lexDoubleQuoteStrLiteral buf alt tok st)))"
  "stepOK buf tok (Some (Finish (lexSingleQuoteStrLiteral buf alt tok st)))"
  by (rule stepOK_result,
      blast intro: hasLexeme_frame literalWritten_frame
        dest: lexNumericLiteral_kind lexFloatLiteral_kind lexHexNumericLiteral_kind
          lexOctalNumericLiteral_kind lexBinaryNumericLiteral_kind lexLegacyOctalLiteral_kind
          lexDoubleQuoteStrLiteral_kind lexSingleQuoteStrLiteral_kind)+

lemma stepOK_singleLineComment:
  "stepOK buf tok
     (case lexSingleLineComment buf alt tok st of
        None \<Rightarrow> None
      | Some (OutOfBounds st') \<Rightarrow> Some (Finish (OutOfBounds st'))
      | Some (Returned again st' tok') \<Rightarrow>
          if again then Some (BeginLexer st' True tok')
          else Some (Finish (Returned () st' tok')))"
proof (cases "lexSingleLineComment buf alt tok st")
  case None
  then show ?thesis by simp
next
  case (Some r)
  show ?thesis
  proof (cases r)
    case (Returned again st' tok')
    with Some have "commentEnd buf tok again st' tok'"
      by (simp add: lexSingleLineComment_def singleLineCommentLoop_end)
    with Some Returned show ?thesis
      by (cases again) (simp_all add: commentEnd_def frame_def)
  next
    case (OutOfBounds st')
    with Some show ?thesis by simp
  qed
qed

lemma stepOK_multiLineComment:
  "stepOK buf tok
     (case lexMultiLineComment buf alt tok st of
        None \<Rightarrow> None
      | Some (OutOfBounds st') \<Rightarrow> Some (Finish (OutOfBounds st'))
      | Some (Returned again st' tok') \<Rightarrow>
          if fst again then Some (BeginLexer st' (snd again) tok')
          else Some (Finish (Returned () st' tok')))"
proof (cases "lexMultiLineComment buf alt tok st")
  case None
  then show ?thesis by simp
next
  case (Some r)
  show ?thesis
  proof (cases r)
    case (Returned again st' tok')
    with Some have "commentEnd buf tok (fst again) st' tok'"
      by (simp add: lexMultiLineComment_def multiLineCommentLoop_end)
    with Some Returned show ?thesis
      by (cases "fst again") (simp_all add: commentEnd_def frame_def)
  next
    case (OutOfBounds st')
    with Some show ?thesis by simp
  qed
qed

text \<open>Every branch of the switch keeps the frame.\<close>

lemma dispatch_stepOK: "stepOK buf tok (dispatch strict buf alt tok st)"
proof (cases "peek buf (ptr st)")
  case None
  then show ?thesis by (simp add: dispatch_def)
next
  case (Some c)
  show ?thesis
    unfolding dispatch_def Let_def Some option.case
    apply (intro stepOK_if stepOK_punctuator stepOK_literal stepOK_singleLineComment
        stepOK_multiLineComment)
    apply (simp_all add: Token_set_def frame_def)
    apply blast
    done
qed

lemma beginLexer_frame_aux:
  "beginLexer strict buf alt tok st = Some y \<Longrightarrow> stepOK buf tok (Some (Finish y))"
proof (induction rule: beginLexer.raw_induct[rotated 1, consumes 1])
  case (1 loop strict buf alt tok st y)
  have ok: "stepOK buf tok (dispatch strict buf alt tok (skipHorizontalWhitespace buf st))"
    by (rule dispatch_stepOK)
  show ?case
  proof (cases "dispatch strict buf alt tok (skipHorizontalWhitespace buf st)")
    case None
    with "1.hyps" show ?thesis by simp
  next
    case (Some s)
    show ?thesis
    proof (cases s)
      case (Finish r)
      with Some "1.hyps" ok show ?thesis by simp
    next
      case (BeginLexer st' alt' tok')
      with Some ok have "tok' = tok" by simp
      with Some BeginLexer "1.hyps" "1.IH" show ?thesis by simp
    qed
  qed
qed

lemma lexToken_frame:
  "lexToken strict buf tok st = Some (Returned u st' tok') \<Longrightarrow> frame buf tok st' tok'"
  using beginLexer_frame_aux [of strict buf False tok st "Returned u st' tok'"]
  by (simp add: lexToken_def)

section \<open>Basic facts\<close>

lemma peek_in_buffer: "peek buf i = Some c \<Longrightarrow> c \<noteq> CHR 0x00 \<Longrightarrow> i < length buf"
  by (auto simp: peek_def split: if_splits)

lemma peek_append_Cons: "peek (xs @ y # ys) (length xs) = Some y"
  by (simp add: peek_def)

lemma advance_advance: "advance m (advance n st) = advance (n + m) st"
  by (simp add: advance_def add.assoc)

lemma convertUTF8Sequence_advances:
  "convertUTF8Sequence buf p = Some r \<Longrightarrow> p < fst r \<and> fst r \<le> length buf"
  by (auto simp: convertUTF8Sequence_def Let_def split: if_splits)

section \<open>Evaluation\<close>

text \<open>The definitions and the loop equations that evaluate a scan of a concrete buffer.\<close>

lemmas scan_defs =
  lexToken_def dispatch_def punctuator_def advance_def peek_def peekIs_def Lexer_new_def
  isHorizontalWhitespace_def isAscii_def isDigit_def isOctalDigit_def isBinaryDigit_def
  isHexDigit_def toUInt32_def Token_set_def Token_set_text_def
  diagnoseUnexpectedNull_def diagnoseInvalidUTF8_def diagnoseInvalidNumericSeparator_def
  diagnoseMalformedRadixInt_def lexFloatLiteral_def lexNumericLiteral_def
  lexHexNumericLiteral_def lexOctalNumericLiteral_def lexBinaryNumericLiteral_def
  lexLegacyOctalLiteral_def lexDoubleQuoteStrLiteral_def lexSingleQuoteStrLiteral_def
  lexSingleLineComment_def lexMultiLineComment_def

lemmas scan_loops =
  beginLexer.simps skipHorizontalWhitespace.simps floatFraction.simps floatExponent.simps
  numericLoop.simps hexLoop.simps octalLoop.simps binaryLoop.simps legacyOctalLoop.simps
  stringLoop.simps singleLineCommentLoop.simps multiLineCommentLoop.simps

lemma skipHorizontalWhitespace_stop:
  "\<not> peekIs isHorizontalWhitespace buf (ptr st) \<Longrightarrow> skipHorizontalWhitespace buf st = st"
  by (subst skipHorizontalWhitespace.simps) simp

section \<open>C1: a byte that no case of the switch names\<close>

text \<open>
  Claim C1 says that every call of \<^verbatim>\<open>lexToken\<close>, on any buffer and from any
  reachable state, terminates with a well-defined token in the caller's slot, also
  when the leading byte has no case in the switch (\<open>@\<close>, \<open>#\<close>, a backtick, a letter, a
  non-ASCII byte).

  The code does not do that. The switch has no \<^verbatim>\<open>default\<close> label, so on such a
  byte the call returns without a call of \<^verbatim>\<open>Token::set\<close> and without moving: the
  slot holds whatever it held before the call (in \<^verbatim>\<open>main\<close>, an uninitialised
  \<^verbatim>\<open>Token\<close>), and the state is the state before the call. The theorem evaluates the
  call on the five bytes the claim lists, for every earlier content \<open>tok\<close> of the slot.
\<close>

theorem lexToken_unhandled_byte_writes_no_token:
  "lexToken strict ''@'' tok (Lexer_new ''@'') = Some (Returned () (Lexer_new ''@'') tok) \<and>
   lexToken strict ''#'' tok (Lexer_new ''#'') = Some (Returned () (Lexer_new ''#'') tok) \<and>
   lexToken strict ''`'' tok (Lexer_new ''`'') = Some (Returned () (Lexer_new ''`'') tok) \<and>
   lexToken strict ''a'' tok (Lexer_new ''a'') = Some (Returned () (Lexer_new ''a'') tok) \<and>
   lexToken strict [CHR 0xC3, CHR 0xA9] tok (Lexer_new [CHR 0xC3, CHR 0xA9]) =
     Some (Returned () (Lexer_new [CHR 0xC3, CHR 0xA9]) tok)"
  by (simp add: scan_defs scan_loops)

section \<open>C2: forward progress\<close>

text \<open>
  Claim C2 says that every call of \<^verbatim>\<open>lexToken\<close> that does not produce
  \<^verbatim>\<open>FileEnd\<close> at the end of the buffer advances the pointer by at least one byte,
  in particular for a plain zero literal, for the single \<open>?\<close> punctuator and when the
  embedded-NUL diagnostic fires.

  The code does not do that. The \<open>?\<close> case ends with \<^verbatim>\<open>++col\<close> where every other
  punctuator case has \<^verbatim>\<open>++ptr\<close>, and the plain-zero case returns without moving the
  pointer at all. On the buffers \<open>?\<close> and \<open>0\<close> the call returns a token with the
  pointer still at offset 0, and a second call returns the same token again. (The
  embedded NUL is the matter of C5.)
\<close>

theorem lexToken_question_and_zero_do_not_advance:
  "lexToken strict ''?'' tok (Lexer_new ''?'') =
     Some (Returned () \<lparr>ptr = 0, lexerFailed = False, line = 1, col = 3, errs = []\<rparr>
       (Token_set Question 1 1 False tok)) \<and>
   lexTokens 2 strict ''?'' tok (Lexer_new ''?'') =
     Some (Returned () \<lparr>ptr = 0, lexerFailed = False, line = 1, col = 5, errs = []\<rparr>
       (Token_set Question 1 3 False tok)) \<and>
   lexToken strict ''0'' tok (Lexer_new ''0'') =
     Some (Returned () \<lparr>ptr = 0, lexerFailed = False, line = 1, col = 1, errs = []\<rparr>
       (Token_set ZeroLiteral 1 1 False tok)) \<and>
   lexTokens 2 strict ''0'' tok (Lexer_new ''0'') =
     Some (Returned () \<lparr>ptr = 0, lexerFailed = False, line = 1, col = 1, errs = []\<rparr>
       (Token_set ZeroLiteral 1 1 False tok))"
  by (simp add: scan_defs scan_loops eval_nat_numeral)

section \<open>C3: the pointer stays inside the buffer\<close>

text \<open>
  Claim C3 says that the current pointer always lies in \<^verbatim>\<open>[bufferStart, bufferEnd]\<close>,
  also while a string literal is scanned and the buffer ends before the closing quote.

  The code does not do that. The loops of the two string scanners have no test for
  \<^verbatim>\<open>endPtr\<close> (the comment scanners have one): the sentinel NUL is an ASCII byte, so
  the loop steps over it. On the two-byte buffer of a double quote and \<open>a\<close> the pointer
  reaches offset 3, one past \<^verbatim>\<open>endPtr = 2\<close>, and the next read is outside the buffer;
  the same holds with a single quote.
\<close>

theorem unterminated_string_runs_past_endPtr:
  "lexToken strict [CHR 0x22, CHR ''a''] tok (Lexer_new [CHR 0x22, CHR ''a'']) =
     Some (OutOfBounds \<lparr>ptr = 3, lexerFailed = False, line = 1, col = 4, errs = []\<rparr>) \<and>
   lexToken strict [CHR 0x27, CHR ''a''] tok (Lexer_new [CHR 0x27, CHR ''a'']) =
     Some (OutOfBounds \<lparr>ptr = 3, lexerFailed = False, line = 1, col = 4, errs = []\<rparr>) \<and>
   length [CHR 0x22, CHR ''a''] < (3::nat)"
  by (simp add: scan_defs scan_loops eval_nat_numeral)

section \<open>C4: line terminators between tokens\<close>

text \<open>
  The ASCII line terminators, for any buffer and state: one pass through the switch
  adds one to \<^verbatim>\<open>line\<close>, sets \<^verbatim>\<open>col\<close> to 1, raises the flag and jumps back to
  \<^verbatim>\<open>beginLexer\<close> without touching the slot; \<open>CR LF\<close> is consumed as one unit.
\<close>

lemma dispatch_line_feed:
  "peek buf (ptr st) = Some (CHR 0x0A) \<Longrightarrow>
   dispatch strict buf alt tok st =
     Some (BeginLexer (st\<lparr>line := line st + 1, col := 1, ptr := ptr st + 1\<rparr>) True tok)"
  by (simp add: dispatch_def)

lemma dispatch_carriage_return:
  "peek buf (ptr st) = Some (CHR 0x0D) \<Longrightarrow>
   dispatch strict buf alt tok st =
     Some (BeginLexer
       (st\<lparr>line := line st + 1, col := 1,
           ptr := (if peek buf (ptr st + 1) = Some (CHR 0x0A) then ptr st + 2
                   else ptr st + 1)\<rparr>) True tok)"
  by (simp add: dispatch_def)

text \<open>
  Claim C4 says that for every line terminator between tokens (\<open>LF\<close>; \<open>CR\<close>, with
  \<open>CR LF\<close> as one unit; the Unicode separators U+2028 and U+2029, decoded through the
  UTF-8 fallback path) \<^verbatim>\<open>lexToken\<close> adds exactly one to \<^verbatim>\<open>line\<close>, resets
  \<^verbatim>\<open>col\<close> to 1, sets the pending flag, restarts the dispatch and never emits the
  terminator as a token.

  For U+2028 and U+2029 the code does not do that. Only the two comment scanners
  decode UTF-8 and test \<^verbatim>\<open>isUnicodeLT\<close>; the switch of \<^verbatim>\<open>lexToken\<close> has no case
  for a non-ASCII byte. With U+2028 (bytes \<open>E2 80 A8\<close>) or U+2029 (\<open>E2 80 A9\<close>) before a
  semicolon, the call returns at once: \<^verbatim>\<open>line\<close> and \<^verbatim>\<open>col\<close> are unchanged, the
  pointer has not moved and the slot is untouched, so the semicolon is never reached.
\<close>

theorem lexToken_unicode_line_terminator_not_recognised:
  "lexToken strict [CHR 0xE2, CHR 0x80, CHR 0xA8, CHR '';''] tok
       (Lexer_new [CHR 0xE2, CHR 0x80, CHR 0xA8, CHR '';'']) =
     Some (Returned () \<lparr>ptr = 0, lexerFailed = False, line = 1, col = 1, errs = []\<rparr> tok) \<and>
   lexToken strict [CHR 0xE2, CHR 0x80, CHR 0xA9, CHR '';''] tok
       (Lexer_new [CHR 0xE2, CHR 0x80, CHR 0xA9, CHR '';'']) =
     Some (Returned () \<lparr>ptr = 0, lexerFailed = False, line = 1, col = 1, errs = []\<rparr> tok)"
  by (simp add: scan_defs scan_loops)

text \<open>
  The sibling path: inside a line comment the same three bytes are decoded and end the
  line, and the semicolon after them is the token of line 2.
\<close>

lemma decode_line_separator:
  "convertUTF8Sequence [CHR ''/'', CHR ''/'', CHR 0xE2, CHR 0x80, CHR 0xA8, CHR '';''] 2 =
     Some (5, 0x2028)"
  by (simp add: convertUTF8Sequence_def trailingBytesForUTF8_def offsetsFromUTF8_def
      isContinuation_def secondByteLegal_def leadByteLegal_def)

lemma line_comment_recognises_unicode_line_terminator:
  "lexToken strict [CHR ''/'', CHR ''/'', CHR 0xE2, CHR 0x80, CHR 0xA8, CHR '';''] tok
       (Lexer_new [CHR ''/'', CHR ''/'', CHR 0xE2, CHR 0x80, CHR 0xA8, CHR '';'']) =
     Some (Returned () \<lparr>ptr = 6, lexerFailed = False, line = 2, col = 2, errs = []\<rparr>
       (Token_set Semicolon 2 1 True tok))"
  using decode_line_separator
  by (simp add: scan_defs scan_loops eval_nat_numeral isUnicodeLT_def)

section \<open>C5: an embedded NUL\<close>

lemma dispatch_embedded_NUL:
  "peek buf (ptr st) = Some (CHR 0x00) \<Longrightarrow> ptr st \<noteq> length buf \<Longrightarrow>
   dispatch strict buf alt tok st = Some (BeginLexer (diagnoseUnexpectedNull st) alt tok)"
  by (simp add: dispatch_def)

text \<open>
  From a NUL that is not the sentinel, \<^verbatim>\<open>lexToken\<close> does not return: the jump to
  \<^verbatim>\<open>beginLexer\<close> finds the same byte again. By the fixpoint induction of
  \<open>beginLexer\<close>: a call that returns did not start at an embedded NUL.
\<close>

lemma beginLexer_embedded_NUL_aux:
  "beginLexer strict buf alt tok st = Some y \<Longrightarrow>
   \<not> (peek buf (ptr st) = Some (CHR 0x00) \<and> ptr st \<noteq> length buf)"
proof (induction rule: beginLexer.raw_induct[rotated 1, consumes 1])
  case (1 loop strict buf alt tok st y)
  show ?case
  proof
    assume nul: "peek buf (ptr st) = Some (CHR 0x00) \<and> ptr st \<noteq> length buf"
    then have ws: "skipHorizontalWhitespace buf st = st"
      by (intro skipHorizontalWhitespace_stop) (simp add: peekIs_def isHorizontalWhitespace_def)
    from nul have "loop strict buf alt tok (diagnoseUnexpectedNull st) = Some y"
      using "1.hyps" by (simp add: ws dispatch_embedded_NUL)
    then have "\<not> (peek buf (ptr (diagnoseUnexpectedNull st)) = Some (CHR 0x00) \<and>
        ptr (diagnoseUnexpectedNull st) \<noteq> length buf)"
      by (rule "1.IH")
    with nul show False by (simp add: diagnoseUnexpectedNull_def)
  qed
qed

lemma lexToken_embedded_NUL:
  "peek buf (ptr st) = Some (CHR 0x00) \<Longrightarrow> ptr st \<noteq> length buf \<Longrightarrow>
   lexToken strict buf tok st = None"
  using beginLexer_embedded_NUL_aux [of strict buf False tok st]
  by (cases "lexToken strict buf tok st") (auto simp: lexToken_def)

text \<open>
  Claim C5 says that on an embedded NUL the scanner emits the diagnostic, advances the
  scan position by exactly one (pointer forward one byte, column up by one, line
  unchanged) and restarts the dispatch without producing a token, so that the condition
  is recoverable.

  The code does not do that. \<^verbatim>\<open>diagnoseUnexpectedNull\<close>, whose comment says that it
  moves to the next character, ends with \<^verbatim>\<open>++line; ++col;\<close> where
  \<^verbatim>\<open>diagnoseInvalidUTF8\<close> has \<^verbatim>\<open>++ptr\<close>. On the buffer of a NUL and a semicolon
  one pass through the switch writes the diagnostic and jumps back with the pointer
  still at offset 0, \<^verbatim>\<open>line\<close> 2 and \<^verbatim>\<open>col\<close> 2; the next pass finds the same NUL,
  and the call of \<^verbatim>\<open>lexToken\<close> never returns. (With the 32-bit counters of the
  source the loop runs into signed overflow of \<^verbatim>\<open>line\<close> instead; the pointer does not
  move in either reading.)
\<close>

theorem embedded_NUL_moves_line_not_pointer:
  "dispatch strict [CHR 0x00, CHR '';''] False tok (Lexer_new [CHR 0x00, CHR '';'']) =
     Some (BeginLexer
       \<lparr>ptr = 0, lexerFailed = True, line = 2, col = 2, errs = [(1, 1, UnexpectedNull)]\<rparr>
       False tok) \<and>
   lexToken strict [CHR 0x00, CHR '';''] tok (Lexer_new [CHR 0x00, CHR '';'']) = None"
  using lexToken_embedded_NUL
    [of "[CHR 0x00, CHR '';'']" "Lexer_new [CHR 0x00, CHR '';'']" strict tok]
  by (simp add: scan_defs)

section \<open>C6: a radix prefix without a digit\<close>

text \<open>
  Claim C6: when a radix prefix (\<open>0x\<close>/\<open>0X\<close>, \<open>0o\<close>/\<open>0O\<close>, \<open>0b\<close>/\<open>0B\<close>) is not
  followed at once by a valid digit of that radix, the scanner emits the
  expected-digit diagnostic, produces a placeholder \<^verbatim>\<open>ZeroLiteral\<close> token and ends
  the literal there, leaving every byte after the prefix unconsumed.

  For every buffer and every state whose pointer is at such a prefix, the call returns
  with exactly one diagnostic appended (it quotes the byte found after the prefix, at
  the column after the prefix), the failed flag set, the slot set to \<^verbatim>\<open>ZeroLiteral\<close>
  at the position of the \<open>0\<close>, and the pointer two bytes on, just after the prefix.
\<close>

theorem radix_prefix_without_digit:
  assumes zero: "peek buf (ptr st) = Some (CHR ''0'')"
    and radix:
      "(peek buf (ptr st + 1) \<in> {Some (CHR ''x''), Some (CHR ''X'')} \<and>
          \<not> peekIs isHexDigit buf (ptr st + 2) \<and> name = ''hexadecimal'' \<and> prefix = ''0x'') \<or>
       (peek buf (ptr st + 1) \<in> {Some (CHR ''o''), Some (CHR ''O'')} \<and>
          \<not> peekIs isOctalDigit buf (ptr st + 2) \<and> name = ''octal'' \<and> prefix = ''0o'') \<or>
       (peek buf (ptr st + 1) \<in> {Some (CHR ''b''), Some (CHR ''B'')} \<and>
          \<not> peekIs isBinaryDigit buf (ptr st + 2) \<and> name = ''binary'' \<and> prefix = ''0b'')"
  shows "lexToken strict buf tok st =
     Some (Returned ()
       (st\<lparr>ptr := ptr st + 2, col := col st + 2,
           errs := errs st @
             [(line st, col st + 2, MalformedRadixInt name prefix (peek buf (ptr st + 2)))],
           lexerFailed := True\<rparr>)
       (Token_set ZeroLiteral (line st) (col st) False tok))"
proof -
  from zero have ws: "skipHorizontalWhitespace buf st = st"
    by (intro skipHorizontalWhitespace_stop) (simp add: peekIs_def isHorizontalWhitespace_def)
  from radix show ?thesis
    unfolding lexToken_def
    by (subst beginLexer.simps)
       (auto simp: ws dispatch_def zero lexHexNumericLiteral_def lexOctalNumericLiteral_def
          lexBinaryNumericLiteral_def diagnoseMalformedRadixInt_def advance_def Let_def)
qed

text \<open>
  The buffer \<open>0x\<close> alone, where the byte after the prefix is the sentinel, and the
  buffers \<open>0O8\<close> and \<open>0b2\<close>, where it is a digit that the radix does not have and
  that stays in the buffer for the next token.
\<close>

theorem radix_prefix_without_digit_witness:
  "peek ''0x'' (ptr (Lexer_new ''0x'')) = Some (CHR ''0'') \<and>
   peek ''0x'' (ptr (Lexer_new ''0x'') + 1) = Some (CHR ''x'') \<and>
   \<not> peekIs isHexDigit ''0x'' (ptr (Lexer_new ''0x'') + 2) \<and>
   lexToken True ''0x'' Token_zero (Lexer_new ''0x'') =
     Some (Returned ()
       \<lparr>ptr = 2, lexerFailed = True, line = 1, col = 3,
          errs = [(1, 3, MalformedRadixInt ''hexadecimal'' ''0x'' (Some (CHR 0x00)))]\<rparr>
       \<lparr>kind = ZeroLiteral, tokLine = 1, tokCol = 1, tokText = (0, 0),
          afterLineTerminator = False\<rparr>) \<and>
   lexToken True ''0O8'' Token_zero (Lexer_new ''0O8'') =
     Some (Returned ()
       \<lparr>ptr = 2, lexerFailed = True, line = 1, col = 3,
          errs = [(1, 3, MalformedRadixInt ''octal'' ''0o'' (Some (CHR ''8'')))]\<rparr>
       \<lparr>kind = ZeroLiteral, tokLine = 1, tokCol = 1, tokText = (0, 0),
          afterLineTerminator = False\<rparr>) \<and>
   lexToken True ''0b2'' Token_zero (Lexer_new ''0b2'') =
     Some (Returned ()
       \<lparr>ptr = 2, lexerFailed = True, line = 1, col = 3,
          errs = [(1, 3, MalformedRadixInt ''binary'' ''0b'' (Some (CHR ''2'')))]\<rparr>
       \<lparr>kind = ZeroLiteral, tokLine = 1, tokCol = 1, tokText = (0, 0),
          afterLineTerminator = False\<rparr>)"
  using radix_prefix_without_digit
    [of "''0x''" "Lexer_new ''0x''" "''hexadecimal''" "''0x''" True Token_zero]
    radix_prefix_without_digit
    [of "''0O8''" "Lexer_new ''0O8''" "''octal''" "''0o''" True Token_zero]
    radix_prefix_without_digit
    [of "''0b2''" "Lexer_new ''0b2''" "''binary''" "''0b''" True Token_zero]
  by (simp add: peek_def peekIs_def isHexDigit_def isOctalDigit_def isBinaryDigit_def
      toUInt32_def Lexer_new_def Token_set_def Token_zero_def)

section \<open>C7: the legacy octal literal \<open>017\<close>\<close>

text \<open>
  Claim C7: scanning \<open>017\<close> with the strict-mode flag on produces an
  \<^verbatim>\<open>OctalLiteral\<close> token and exactly one diagnostic, and the diagnostic does not
  alter the token that was already produced, it only sets the sticky failed flag; with
  strict mode off the same \<^verbatim>\<open>OctalLiteral\<close> token is produced with no diagnostic.

  Both calls are evaluated, for every earlier content \<open>tok\<close> of the slot, and the slot
  after the call is written out field by field: kind \<^verbatim>\<open>OctalLiteral\<close>, line 1,
  column 1, flag \<^verbatim>\<open>false\<close>, and as text the two bytes \<open>17\<close> after the leading zero.
  It is the same token in both modes; the states differ in \<^verbatim>\<open>lexerFailed\<close> and in
  the one diagnostic line, written at line 1, column 1.
\<close>

theorem legacy_octal_017_token_and_diagnostic:
  "lexToken True ''017'' tok (Lexer_new ''017'') =
     Some (Returned ()
       \<lparr>ptr = 3, lexerFailed = True, line = 1, col = 4,
          errs = [(1, 1, LegacyOctalInStrictMode)]\<rparr>
       \<lparr>kind = OctalLiteral, tokLine = 1, tokCol = 1, tokText = (1, 2),
          afterLineTerminator = False\<rparr>) \<and>
   lexToken False ''017'' tok (Lexer_new ''017'') =
     Some (Returned ()
       \<lparr>ptr = 3, lexerFailed = False, line = 1, col = 4, errs = []\<rparr>
       \<lparr>kind = OctalLiteral, tokLine = 1, tokCol = 1, tokText = (1, 2),
          afterLineTerminator = False\<rparr>) \<and>
   lexeme ''017''
       \<lparr>kind = OctalLiteral, tokLine = 1, tokCol = 1, tokText = (1, 2),
          afterLineTerminator = False\<rparr> = ''17''"
  by (cases tok) (simp add: scan_defs scan_loops eval_nat_numeral lexeme_def)

section \<open>C8: \<^verbatim>\<open>FileEnd\<close> at the end of the buffer\<close>

lemma lexToken_at_endPtr:
  assumes "ptr st = length buf"
  shows "lexToken strict buf tok st =
     Some (Returned () st (Token_set FileEnd (line st) (col st) False tok))"
proof -
  from assms have nul: "peek buf (ptr st) = Some (CHR 0x00)"
    by (simp add: peek_def)
  then have ws: "skipHorizontalWhitespace buf st = st"
    by (intro skipHorizontalWhitespace_stop) (simp add: peekIs_def isHorizontalWhitespace_def)
  show ?thesis
    unfolding lexToken_def
    by (subst beginLexer.simps) (simp add: ws dispatch_def Let_def nul assms [symmetric])
qed

lemma lexTokens_at_endPtr:
  assumes "ptr st = length buf"
  shows "lexTokens (Suc n) strict buf tok st =
     Some (Returned () st (Token_set FileEnd (line st) (col st) False tok))"
proof (induction n arbitrary: tok)
  case 0
  show ?case by (simp add: lexToken_at_endPtr [OF assms])
next
  case (Suc n)
  have "lexTokens (Suc (Suc n)) strict buf tok st =
      lexTokens (Suc n) strict buf (Token_set FileEnd (line st) (col st) False tok) st"
    by (simp add: lexToken_at_endPtr [OF assms])
  also have "\<dots> = Some (Returned () st
      (Token_set FileEnd (line st) (col st) False
         (Token_set FileEnd (line st) (col st) False tok)))"
    by (rule Suc.IH)
  finally show ?case by (simp add: Token_set_def)
qed

text \<open>
  In a run of successive calls, \<^verbatim>\<open>FileEnd\<close> newly in the slot means that the pointer
  is at \<^verbatim>\<open>endPtr\<close>: the call that wrote it ended there, by the frame of
  \<^verbatim>\<open>lexToken\<close>, and the calls after it do not move.
\<close>

lemma lexTokens_FileEnd_at_endPtr:
  "lexTokens n strict buf tok st = Some (Returned u st' tok') \<Longrightarrow>
   kind tok \<noteq> FileEnd \<Longrightarrow> kind tok' = FileEnd \<Longrightarrow> ptr st' = length buf"
proof (induction n arbitrary: tok st)
  case 0
  then show ?case by simp
next
  case (Suc n)
  from Suc.prems(1) obtain u1 st1 tok1 where
    first: "lexToken strict buf tok st = Some (Returned u1 st1 tok1)" and
    rest: "lexTokens n strict buf tok1 st1 = Some (Returned u st' tok')"
    by (auto split: option.splits result.splits)
  show ?case
  proof (cases "kind tok1 = FileEnd")
    case True
    with first Suc.prems(2) have at_end: "ptr st1 = length buf"
      using lexToken_frame [of strict buf tok st u1 st1 tok1] by (simp add: frame_def)
    have "st' = st1"
    proof (cases n)
      case 0
      with rest show ?thesis by simp
    next
      case (Suc m)
      with rest lexTokens_at_endPtr [OF at_end, of m strict tok1] show ?thesis by simp
    qed
    with at_end show ?thesis by simp
  next
    case False
    from rest False Suc.prems(3) show ?thesis by (rule Suc.IH)
  qed
qed

text \<open>
  On the buffer \<open>?\<close> the pointer never leaves offset 0: a call from there sets
  \<^verbatim>\<open>Question\<close> and adds two to \<^verbatim>\<open>col\<close>, and so does every call after it.
\<close>

lemma lexToken_question_stuck:
  "ptr st = 0 \<Longrightarrow>
   lexToken strict ''?'' tok st =
     Some (Returned () (st\<lparr>col := col st + 2\<rparr>)
       \<lparr>kind = Question, tokLine = line st, tokCol = col st, tokText = tokText tok,
          afterLineTerminator = False\<rparr>)"
  by (cases tok) (simp add: scan_defs scan_loops)

lemma lexTokens_question_stuck:
  "ptr st = 0 \<Longrightarrow>
   lexTokens (Suc n) strict ''?'' tok st =
     Some (Returned () (st\<lparr>col := col st + 2 + 2 * int n\<rparr>)
       \<lparr>kind = Question, tokLine = line st, tokCol = col st + 2 * int n,
          tokText = tokText tok, afterLineTerminator = False\<rparr>)"
proof (induction n arbitrary: tok st)
  case 0
  then show ?case by (simp add: lexToken_question_stuck)
next
  case (Suc n)
  have "lexTokens (Suc (Suc n)) strict ''?'' tok st =
      lexTokens (Suc n) strict ''?''
        \<lparr>kind = Question, tokLine = line st, tokCol = col st, tokText = tokText tok,
           afterLineTerminator = False\<rparr> (st\<lparr>col := col st + 2\<rparr>)"
    using Suc.prems by (simp add: lexToken_question_stuck)
  also have "\<dots> = Some (Returned ()
      ((st\<lparr>col := col st + 2\<rparr>)\<lparr>col := col (st\<lparr>col := col st + 2\<rparr>) + 2 + 2 * int n\<rparr>)
       \<lparr>kind = Question, tokLine = line (st\<lparr>col := col st + 2\<rparr>),
          tokCol = col (st\<lparr>col := col st + 2\<rparr>) + 2 * int n,
          tokText = tokText \<lparr>kind = Question, tokLine = line st, tokCol = col st,
             tokText = tokText tok, afterLineTerminator = False\<rparr>,
          afterLineTerminator = False\<rparr>)"
    using Suc.prems by (intro Suc.IH) simp
  finally show ?case by (simp add: algebra_simps)
qed

text \<open>
  Claim C8 says that a call of \<^verbatim>\<open>lexToken\<close> with the pointer at \<^verbatim>\<open>bufferEnd\<close>
  produces \<^verbatim>\<open>FileEnd\<close> and leaves the pointer and the position counters unchanged,
  so that every later call produces \<^verbatim>\<open>FileEnd\<close> again, and that scanning any buffer
  to completion yields \<^verbatim>\<open>FileEnd\<close> as the last token produced before the pointer
  stops advancing.

  The first half holds: it is the three lemmas at the head of this section, for every
  buffer and state. The second half does not hold of the code. On the buffer \<open>?\<close> the
  scan is never complete: the \<open>?\<close> case of the switch ends with \<^verbatim>\<open>++col\<close> where
  \<^verbatim>\<open>++ptr\<close> belongs (the slip of C2), so after any number \<open>Suc n\<close> of successive
  calls from the fresh scanner the pointer is still at offset 0, before the only byte
  of the buffer, and the token in the slot is \<^verbatim>\<open>Question\<close> at column \<open>1 + 2 n\<close>.
  The pointer has stopped advancing, and no call has produced or will produce
  \<^verbatim>\<open>FileEnd\<close>.
\<close>

theorem scan_of_question_never_reaches_FileEnd:
  "lexTokens (Suc n) strict ''?'' tok (Lexer_new ''?'') =
     Some (Returned ()
       \<lparr>ptr = 0, lexerFailed = False, line = 1, col = 3 + 2 * int n, errs = []\<rparr>
       \<lparr>kind = Question, tokLine = 1, tokCol = 1 + 2 * int n, tokText = tokText tok,
          afterLineTerminator = False\<rparr>) \<and>
   length ''?'' = 1 \<and> Question \<noteq> FileEnd"
  using lexTokens_question_stuck [of "Lexer_new ''?''" n strict tok]
  by (simp add: Lexer_new_def)

section \<open>C9: the four-argument \<^verbatim>\<open>Token::set\<close> leaves the text\<close>

text \<open>
  Claim C9: the four-argument overload of \<^verbatim>\<open>Token::set\<close> never writes the text
  field, so every token produced without a lexeme (\<^verbatim>\<open>FileEnd\<close>, every punctuator
  and operator, \<^verbatim>\<open>ZeroLiteral\<close>, also as the placeholder after a malformed radix
  prefix, and \<^verbatim>\<open>ZeroBigIntLiteral\<close>) leaves the text of the caller's slot as the
  token scanned before stored it; only kind, line, column and the flag are updated.

  The first conjunct is the overload itself. The second is every returning call of
  \<^verbatim>\<open>lexToken\<close>, on any buffer, from any state and slot: when the kind in the slot
  afterwards is not one of the ten kinds with a lexeme, the text in the slot is the
  text it held before the call.
\<close>

theorem four_argument_set_keeps_text:
  "tokText (Token_set k l c a tok) = tokText tok \<and>
   (lexToken strict buf tok st = Some (Returned u st' tok') \<and> \<not> hasLexeme (kind tok') \<longrightarrow>
      tokText tok' = tokText tok)"
  using lexToken_frame [of strict buf tok st u st' tok']
  by (auto simp: frame_def Token_set_def)

text \<open>
  The buffer \<open>12;\<close> after its first token: the slot holds the \<^verbatim>\<open>DecimalLiteral\<close>
  with the text \<open>(0, 2)\<close>, and the call that scans the semicolon leaves that text in
  the \<^verbatim>\<open>Semicolon\<close> token.
\<close>

lemma second_token_of_12_semicolon:
  "lexToken True ''12;''
       \<lparr>kind = DecimalLiteral, tokLine = 1, tokCol = 1, tokText = (0, 2),
          afterLineTerminator = False\<rparr>
       \<lparr>ptr = 2, lexerFailed = False, line = 1, col = 3, errs = []\<rparr> =
     Some (Returned () \<lparr>ptr = 3, lexerFailed = False, line = 1, col = 4, errs = []\<rparr>
       \<lparr>kind = Semicolon, tokLine = 1, tokCol = 3, tokText = (0, 2),
          afterLineTerminator = False\<rparr>)"
  by (simp add: scan_defs scan_loops eval_nat_numeral)

theorem four_argument_set_keeps_text_witness:
  "lexToken True ''12;''
       \<lparr>kind = DecimalLiteral, tokLine = 1, tokCol = 1, tokText = (0, 2),
          afterLineTerminator = False\<rparr>
       \<lparr>ptr = 2, lexerFailed = False, line = 1, col = 3, errs = []\<rparr> =
     Some (Returned () \<lparr>ptr = 3, lexerFailed = False, line = 1, col = 4, errs = []\<rparr>
       \<lparr>kind = Semicolon, tokLine = 1, tokCol = 3, tokText = (0, 2),
          afterLineTerminator = False\<rparr>) \<and>
   \<not> hasLexeme Semicolon \<and>
   tokText \<lparr>kind = Semicolon, tokLine = 1, tokCol = 3, tokText = (0, 2),
          afterLineTerminator = False\<rparr> = (0, 2)"
  using four_argument_set_keeps_text
    [of Semicolon 1 3 False
        "\<lparr>kind = DecimalLiteral, tokLine = 1, tokCol = 1, tokText = (0, 2),
          afterLineTerminator = False\<rparr>" True "''12;''"
        "\<lparr>ptr = 2, lexerFailed = False, line = 1, col = 3, errs = []\<rparr>" "()"
        "\<lparr>ptr = 3, lexerFailed = False, line = 1, col = 4, errs = []\<rparr>"
        "\<lparr>kind = Semicolon, tokLine = 1, tokCol = 3, tokText = (0, 2),
          afterLineTerminator = False\<rparr>"]
    second_token_of_12_semicolon
  by (simp add: hasLexeme_def)

section \<open>C10: an exponent prefix without digits\<close>

text \<open>The \<^verbatim>\<open>do\<close>-\<^verbatim>\<open>while\<close> loop steps over the point and all digits after it.\<close>

lemma floatFraction_digits:
  assumes "\<forall>x\<in>set ds. isDigit x"
    and "buf = pre @ d # ds @ rest"
    and "ptr st = length pre"
    and "\<not> peekIs isDigit buf (length pre + 1 + length ds)"
  shows "floatFraction buf st = advance (1 + length ds) st"
  using assms
proof (induction ds arbitrary: pre d st)
  case Nil
  then show ?case
    by (subst floatFraction.simps) simp
next
  case (Cons x xs)
  have here: "peek buf (ptr st + 1) = Some x"
    using Cons.prems peek_append_Cons [of "pre @ [d]" x "xs @ rest"] by simp
  have "floatFraction buf (advance 1 st) = advance (1 + length xs) (advance 1 st)"
    using Cons.prems
    by (intro Cons.IH [of "pre @ [d]" x]) (simp_all add: advance_def)
  with here Cons.prems show ?case
    by (subst floatFraction.simps) (simp add: peekIs_def advance_advance)
qed

text \<open>
  Claim C10 says that when the exponent prefix \<open>e\<close>/\<open>E\<close> (and an optional sign) of a
  float literal is not followed by any digit, \<^verbatim>\<open>lexFloatLiteral\<close> emits no
  diagnostic and still produces a \<^verbatim>\<open>FloatLiteral\<close> token whose lexeme includes the
  consumed prefix and sign.

  As stated the claim fails where the byte after the prefix and sign is the numeric
  separator: the exponent loop has a case for \<open>_\<close>, and an underscore that no digit
  follows gets the invalid-separator diagnostic. In the buffer \<open>1.5e+_\<close> the prefix
  \<open>e+\<close> is followed by no digit, the token is a \<^verbatim>\<open>FloatLiteral\<close> with the lexeme
  \<open>1.5e+\<close>, and one diagnostic is written and the failed flag set.
\<close>

theorem float_exponent_separator_counterexample:
  "lexFloatLiteral ''1.5e+_'' 0 1 False Token_zero
       \<lparr>ptr = 1, lexerFailed = False, line = 1, col = 2, errs = []\<rparr> =
     Returned ()
       \<lparr>ptr = 6, lexerFailed = True, line = 1, col = 7,
          errs = [(1, 7, InvalidNumericSeparator (Some (CHR ''_'')))]\<rparr>
       (Token_set_text FloatLiteral 1 1 False (0, 5) Token_zero) \<and>
   lexToken True ''1.5e+_'' Token_zero (Lexer_new ''1.5e+_'') =
     Some (Returned ()
       \<lparr>ptr = 6, lexerFailed = True, line = 1, col = 7,
          errs = [(1, 7, InvalidNumericSeparator (Some (CHR ''_'')))]\<rparr>
       (Token_set_text FloatLiteral 1 1 False (0, 5) Token_zero)) \<and>
   lexeme ''1.5e+_'' (Token_set_text FloatLiteral 1 1 False (0, 5) Token_zero) = ''1.5e+''"
  by (simp add: scan_defs scan_loops eval_nat_numeral lexeme_def)

text \<open>
  Claim C10 as amended: the byte after the exponent prefix and the optional sign is
  neither a digit nor the numeric separator \<open>_\<close>. The buffer is any
  \<open>pre @ d # ds @ e # sg @ rest\<close> with the pointer at \<open>d\<close> (the point), \<open>ds\<close> the
  digits of the fraction, \<open>e\<close> the exponent letter, \<open>sg\<close> the optional sign, and \<open>c\<close>
  the byte after them (the first byte of \<open>rest\<close>, or the sentinel). Then
  \<^verbatim>\<open>lexFloatLiteral\<close> returns with the pointer just before \<open>c\<close>, writes nothing to
  the error stream, leaves the failed flag as it was, and sets a \<^verbatim>\<open>FloatLiteral\<close>
  whose lexeme runs from the start offset through \<open>e\<close> and the sign.
\<close>

theorem float_exponent_without_digits:
  assumes buf: "buf = pre @ d # ds @ e # sg @ rest"
    and start: "ptr st = length pre" "startPtr \<le> length pre"
    and digits: "\<forall>x\<in>set ds. isDigit x"
    and e: "e = CHR ''e'' \<or> e = CHR ''E''"
    and sg: "sg = [] \<or> sg = ''+'' \<or> sg = ''-''"
    and after: "peek buf (length pre + length ds + 2 + length sg) = Some c"
      "c \<notin> set ''0123456789_''" "sg = [] \<longrightarrow> c \<noteq> CHR ''+'' \<and> c \<noteq> CHR ''-''"
    and tok': "tok' = Token_set_text FloatLiteral (line st) startCol alt
        (startPtr, length pre + length ds + 2 + length sg - startPtr) tok"
  shows "lexFloatLiteral buf startPtr startCol alt tok st =
           Returned () (advance (length ds + 2 + length sg) st) tok' \<and>
         errs (advance (length ds + 2 + length sg) st) = errs st \<and>
         lexerFailed (advance (length ds + 2 + length sg) st) = lexerFailed st \<and>
         kind tok' = FloatLiteral \<and>
         lexeme buf tok' = drop startPtr pre @ d # ds @ e # sg"
proof -
  have at_e: "peek buf (length pre + 1 + length ds) = Some e"
    using peek_append_Cons [of "pre @ d # ds" e "sg @ rest"] buf by simp
  with e have "\<not> peekIs isDigit buf (length pre + 1 + length ds)"
    by (auto simp: peekIs_def isDigit_def toUInt32_def)
  with digits buf start have frac: "floatFraction buf st = advance (1 + length ds) st"
    by (intro floatFraction_digits [of ds buf pre d "e # sg @ rest"]) simp_all
  have sign: "(peek buf (length pre + 1 + length ds + 1) = Some (CHR ''+'') \<or>
      peek buf (length pre + 1 + length ds + 1) = Some (CHR ''-'')) = (sg \<noteq> [])"
  proof (cases "sg = []")
    case True
    with after show ?thesis by (auto simp: add.commute add.left_commute)
  next
    case False
    with sg obtain s where s: "sg = [s]" "s = CHR ''+'' \<or> s = CHR ''-''" by auto
    then have "peek buf (length pre + 1 + length ds + 1) = Some s"
      using peek_append_Cons [of "pre @ d # ds @ [e]" s rest] buf by simp
    with s False show ?thesis by auto
  qed
  have stop: "floatExponent buf startPtr startCol alt tok
        (advance (length ds + 2 + length sg) st) =
      Returned () (advance (length ds + 2 + length sg) st) tok'"
    using after start tok'
    by (subst floatExponent.simps)
       (auto simp: advance_def add.commute add.left_commute)
  have run: "lexFloatLiteral buf startPtr startCol alt tok st =
      Returned () (advance (length ds + 2 + length sg) st) tok'"
  proof (cases "sg = []")
    case True
    with stop sign e at_e start show ?thesis
      by (auto simp: lexFloatLiteral_def frac Let_def advance_advance advance_def
          add.commute add.left_commute)
  next
    case False
    with sg have "length sg = 1" by auto
    with False stop sign e at_e start show ?thesis
      by (auto simp: lexFloatLiteral_def frac Let_def advance_advance advance_def
          add.commute add.left_commute)
  qed
  have "lexeme buf tok' = drop startPtr pre @ d # ds @ e # sg"
    using start buf tok' by (simp add: lexeme_def Token_set_text_def)
  with run tok' show ?thesis
    by (simp add: advance_def Token_set_text_def)
qed

text \<open>
  The buffer \<open>1.5e+;\<close>, entered as \<^verbatim>\<open>lexNumericLiteral\<close> enters it at the point:
  no diagnostic, and the lexeme is \<open>1.5e+\<close>.
\<close>

theorem float_exponent_without_digits_witness:
  "''1.5e+;'' = ''1'' @ CHR ''.'' # ''5'' @ CHR ''e'' # ''+'' @ '';'' \<and>
   isDigit (CHR ''5'') \<and>
   peek ''1.5e+;'' 5 = Some (CHR '';'') \<and>
   lexFloatLiteral ''1.5e+;'' 0 1 False Token_zero
       \<lparr>ptr = 1, lexerFailed = False, line = 1, col = 2, errs = []\<rparr> =
     Returned () \<lparr>ptr = 5, lexerFailed = False, line = 1, col = 6, errs = []\<rparr>
       (Token_set_text FloatLiteral 1 1 False (0, 5) Token_zero) \<and>
   lexeme ''1.5e+;'' (Token_set_text FloatLiteral 1 1 False (0, 5) Token_zero) = ''1.5e+''"
  using float_exponent_without_digits
    [where buf = "''1.5e+;''" and pre = "''1''" and d = "CHR ''.''" and ds = "''5''"
       and e = "CHR ''e''" and sg = "''+''" and rest = "'';''"
       and st = "\<lparr>ptr = 1, lexerFailed = False, line = 1, col = 2, errs = []\<rparr>"
       and startPtr = 0 and c = "CHR '';''" and startCol = 1 and alt = False
       and tok = Token_zero
       and tok' = "Token_set_text FloatLiteral 1 1 False (0, 5) Token_zero"]
  by (simp add: peek_def isDigit_def toUInt32_def advance_def eval_nat_numeral)

text \<open>
  The other side of the amendment, for every buffer: when the byte after the exponent
  prefix and the optional sign is the separator \<open>_\<close> and no digit follows it, the token
  is the same \<^verbatim>\<open>FloatLiteral\<close> with the lexeme through the prefix and the sign, the
  underscore is consumed, and the one invalid-separator diagnostic is written and the
  failed flag set.
\<close>

lemma float_exponent_separator_without_digit:
  assumes buf: "buf = pre @ d # ds @ e # sg @ rest"
    and start: "ptr st = length pre" "startPtr \<le> length pre"
    and digits: "\<forall>x\<in>set ds. isDigit x"
    and e: "e = CHR ''e'' \<or> e = CHR ''E''"
    and sg: "sg = [] \<or> sg = ''+'' \<or> sg = ''-''"
    and after: "peek buf (length pre + length ds + 2 + length sg) = Some (CHR ''_'')"
      "\<not> peekIs isDigit buf (length pre + length ds + 2 + length sg + 1)"
  shows "lexFloatLiteral buf startPtr startCol alt tok st =
           Returned ()
             (st\<lparr>ptr := length pre + length ds + 2 + length sg + 1,
                 col := col st + int (length ds + 2 + length sg) + 1,
                 errs := errs st @
                   [(line st, col st + int (length ds + 2 + length sg) + 1,
                     InvalidNumericSeparator (Some (CHR ''_'')))],
                 lexerFailed := True\<rparr>)
             \<lparr>kind = FloatLiteral, tokLine = line st, tokCol = startCol,
                tokText = (startPtr, length pre + length ds + 2 + length sg - startPtr),
                afterLineTerminator = alt\<rparr>"
proof -
  have at_e: "peek buf (length pre + 1 + length ds) = Some e"
    using peek_append_Cons [of "pre @ d # ds" e "sg @ rest"] buf by simp
  with e have "\<not> peekIs isDigit buf (length pre + 1 + length ds)"
    by (auto simp: peekIs_def isDigit_def toUInt32_def)
  with digits buf start have frac: "floatFraction buf st = advance (1 + length ds) st"
    by (intro floatFraction_digits [of ds buf pre d "e # sg @ rest"]) simp_all
  have sign: "(peek buf (length pre + 1 + length ds + 1) = Some (CHR ''+'') \<or>
      peek buf (length pre + 1 + length ds + 1) = Some (CHR ''-'')) = (sg \<noteq> [])"
  proof (cases "sg = []")
    case True
    with after show ?thesis by (auto simp: add.commute add.left_commute)
  next
    case False
    with sg obtain s where s: "sg = [s]" "s = CHR ''+'' \<or> s = CHR ''-''" by auto
    then have "peek buf (length pre + 1 + length ds + 1) = Some s"
      using peek_append_Cons [of "pre @ d # ds @ [e]" s rest] buf by simp
    with s False show ?thesis by auto
  qed
  have stop: "floatExponent buf startPtr startCol alt tok
        (advance (length ds + 2 + length sg) st) =
      Returned ()
             (st\<lparr>ptr := length pre + length ds + 2 + length sg + 1,
                 col := col st + int (length ds + 2 + length sg) + 1,
                 errs := errs st @
                   [(line st, col st + int (length ds + 2 + length sg) + 1,
                     InvalidNumericSeparator (Some (CHR ''_'')))],
                 lexerFailed := True\<rparr>)
             \<lparr>kind = FloatLiteral, tokLine = line st, tokCol = startCol,
                tokText = (startPtr, length pre + length ds + 2 + length sg - startPtr),
                afterLineTerminator = alt\<rparr>"
    using after start
    by (cases tok, subst floatExponent.simps)
       (auto simp: advance_def add.commute add.left_commute Let_def
          diagnoseInvalidNumericSeparator_def Token_set_text_def)
  show ?thesis
  proof (cases "sg = []")
    case True
    with stop sign e at_e start show ?thesis
      by (auto simp: lexFloatLiteral_def frac Let_def advance_advance advance_def
          add.commute add.left_commute)
  next
    case False
    with sg have "length sg = 1" by auto
    with False stop sign e at_e start show ?thesis
      by (auto simp: lexFloatLiteral_def frac Let_def advance_advance advance_def
          add.commute add.left_commute)
  qed
qed

end
